theory Spec2Isabelle
  imports Main "HOL-Library.AList" "HOL-Library.Word"
begin

section \<open>The Aws_json1_0 protocol codec of the Q Developer streaming client\<close>

text \<open>
  A shallow embedding of \<^verbatim>\<open>src/protocols/Aws_json1_0.ts\<close>. JavaScript objects with a
  known shape are records whose fields are \<open>option\<close>s (\<open>None\<close> is \<^verbatim>\<open>undefined\<close>), values
  of type \<^verbatim>\<open>any\<close> are JSON values, a thrown exception is the \<open>Inl\<close> of a sum, and the
  functions the file imports from its runtime libraries or receives through the
  \<^verbatim>\<open>context\<close> argument are parameters. Three of them are also given a definition,
  where a property depends on what they do: the constructor of the request, the loader
  of the error code and the loop over the frames of an event stream.
\<close>

subsection \<open>Values\<close>

text \<open>A JSON value; an object keeps its keys, which are distinct, in insertion order.\<close>

datatype json =
    JNull
  | JBool bool
  | JNum int
  | JStr string
  | JArr "json list"
  | JObj "(string \<times> json) list"

text \<open>A \<^verbatim>\<open>Uint8Array\<close>.\<close>

type_synonym bytes = "8 word list"

text \<open>
  \<^verbatim>\<open>String.prototype.endsWith\<close> and \<^verbatim>\<open>String.prototype.slice\<close>: a negative index of
  \<^verbatim>\<open>slice\<close> counts from the end, and both indices are clamped to the string.
\<close>

definition endsWith :: "string \<Rightarrow> string \<Rightarrow> bool" where
  "endsWith s suffix =
     (length suffix \<le> length s \<and> drop (length s - length suffix) s = suffix)"

definition slice_index :: "nat \<Rightarrow> int \<Rightarrow> nat" where
  "slice_index len i = (if i < 0 then nat (max (int len + i) 0) else min (nat i) len)"

definition slice :: "string \<Rightarrow> int \<Rightarrow> int \<Rightarrow> string" where
  "slice s start end =
     (let from = slice_index (length s) start; to = slice_index (length s) end
      in take (to - from) (drop from s))"

text \<open>The nullish coalescing operator \<^verbatim>\<open>a ?? b\<close>.\<close>

definition nullish :: "'a option \<Rightarrow> 'a option \<Rightarrow> 'a option" where
  "nullish a b = (case a of None \<Rightarrow> b | Some v \<Rightarrow> Some v)"

subsection \<open>Responses and their metadata\<close>

text \<open>
  What the deserializers read of an \<^verbatim>\<open>HttpResponse\<close>, of an event stream \<^verbatim>\<open>Message\<close>
  and of the \<^verbatim>\<open>parsedOutput\<close> objects spread from them. A message has no
  \<^verbatim>\<open>statusCode\<close>; an HTTP response always has one.
\<close>

record ('h, 'b) response =
  statusCode :: "int option"
  headers :: "string \<rightharpoonup> 'h"
  body :: 'b

record 'h response_metadata =
  httpStatusCode :: "int option"
  requestId :: "'h option"
  extendedRequestId :: "'h option"
  cfId :: "'h option"

definition deserializeMetadata :: "('h, 'b) response \<Rightarrow> 'h response_metadata" where
  "deserializeMetadata output =
     \<lparr> httpStatusCode = statusCode output,
       requestId =
         nullish (nullish (headers output ''x-amzn-requestid'')
                          (headers output ''x-amzn-request-id''))
                 (headers output ''x-amz-request-id''),
       extendedRequestId = headers output ''x-amz-id-2'',
       cfId = headers output ''x-amz-cf-id'' \<rparr>"

subsection \<open>The request envelope\<close>

text \<open>What \<^verbatim>\<open>await context.endpoint()\<close> resolves to.\<close>

record endpoint =
  ep_hostname :: string
  ep_protocol :: "string option"
  ep_port :: "nat option"
  ep_path :: string

text \<open>The object \<^verbatim>\<open>contents\<close> that \<^verbatim>\<open>buildHttpRpcRequest\<close> fills in.\<close>

record 'body request_contents =
  c_protocol :: string
  c_hostname :: string
  c_port :: "nat option"
  c_method :: string
  c_path :: string
  c_headers :: "(string \<times> string) list"
  c_body :: "'body option"

record 'body http_request =
  req_method :: string
  req_hostname :: string
  req_port :: "nat option"
  req_query :: "(string \<times> string) list"
  req_headers :: "(string \<times> string) list"
  req_body :: "'body option"
  req_protocol :: string
  req_path :: string

text \<open>\<^verbatim>\<open>String.prototype.charAt\<close>\<close>

definition charAt :: "string \<Rightarrow> nat \<Rightarrow> string" where
  "charAt s i = (if i < length s then [s ! i] else [])"

text \<open>
  \<^verbatim>\<open>new __HttpRequest(contents)\<close>: the constructor of \<^verbatim>\<open>HttpRequest\<close> in
  \<^verbatim>\<open>@smithy/protocol-http\<close>, which is not under src/. It copies the port, the headers and
  the body, replaces an empty method by \<open>GET\<close> and an empty host name by \<open>localhost\<close>,
  leaves the query empty, ends the protocol with a colon (\<open>https:\<close> when it is empty)
  and begins the path with a slash (\<open>/\<close> when it is empty).
\<close>

definition new_HttpRequest :: "'body request_contents \<Rightarrow> 'body http_request" where
  "new_HttpRequest options =
     \<lparr> req_method = (if c_method options = [] then ''GET'' else c_method options),
       req_hostname = (if c_hostname options = [] then ''localhost'' else c_hostname options),
       req_port = c_port options,
       req_query = [],
       req_headers = c_headers options,
       req_body = c_body options,
       req_protocol =
         (if c_protocol options = [] then ''https:''
          else if slice (c_protocol options) (- 1) (int (length (c_protocol options))) \<noteq> '':''
          then c_protocol options @ '':''
          else c_protocol options),
       req_path =
         (if c_path options = [] then ''/''
          else if charAt (c_path options) 0 \<noteq> ''/'' then ''/'' @ c_path options
          else c_path options) \<rparr>"

text \<open>
  The \<^verbatim>\<open>context\<close> argument (\<^verbatim>\<open>__SerdeContext\<close>), as far as the serializers use it: the
  base64 encoder of the runtime configuration and the resolved endpoint.
\<close>

record serde_context =
  base64Encoder :: "bytes \<Rightarrow> string"
  endpoint :: endpoint

definition buildHttpRpcRequest ::
  "serde_context \<Rightarrow> (string \<times> string) list \<Rightarrow> string \<Rightarrow> string option \<Rightarrow> 'body option
     \<Rightarrow> 'body http_request" where
  "buildHttpRpcRequest context hdrs path resolvedHostname body' =
     (let hostname = ep_hostname (endpoint context);
          protocol = (case ep_protocol (endpoint context) of None \<Rightarrow> ''https'' | Some p \<Rightarrow> p);
          port = ep_port (endpoint context);
          basePath = ep_path (endpoint context);
          contents =
            \<lparr> c_protocol = protocol,
              c_hostname = (case resolvedHostname of None \<Rightarrow> hostname | Some h \<Rightarrow> h),
              c_port = port,
              c_method = ''POST'',
              c_path = (if endsWith basePath ''/'' then slice basePath 0 (- 1) @ path
                        else basePath @ path),
              c_headers = hdrs,
              c_body = body' \<rparr>
      in new_HttpRequest contents)"

definition sharedHeaders :: "string \<Rightarrow> (string \<times> string) list" where
  "sharedHeaders operation =
     [(''content-type'', ''application/x-amz-json-1.0''),
      (''x-amz-target'', ''AmazonQDeveloperStreamingService.'' @ operation)]"

subsection \<open>Imported functions\<close>

text \<open>
  The functions imported from \<^verbatim>\<open>@aws-sdk/core\<close> and \<^verbatim>\<open>@smithy/smithy-client\<close> are
  parameters: \<open>parseBody\<close> and \<open>parseErrorBody\<close> read a body as JSON (\<open>None\<close>: the
  promise rejects), \<open>loadRestJsonErrorCode\<close> extracts the error code of an error
  response (\<open>None\<close>: \<^verbatim>\<open>undefined\<close>), \<open>uscore_json\<close> is \<^verbatim>\<open>_json\<close>, \<open>expectString\<close> is
  \<^verbatim>\<open>__expectString\<close> (\<open>None\<close>: it throws). \<open>'b\<close> is the body of an HTTP response,
  \<open>'m\<close> the body of an event stream message, \<open>'h\<close> a header value.
\<close>

record ('h, 'b, 'm) library =
  parseBody :: "'m \<Rightarrow> json option"
  parseErrorBody :: "'b \<Rightarrow> json option"
  loadRestJsonErrorCode :: "('h, 'b) response \<Rightarrow> json \<Rightarrow> string option"
  uscore_json :: "json \<Rightarrow> json"
  expectString :: "json \<Rightarrow> json option"

subsection \<open>The structured-field projector\<close>

text \<open>A field copied as it is holds a string, a number or a boolean.\<close>

datatype scalar = SString string | SNumber int | SBoolean bool

fun scalar_json :: "scalar \<Rightarrow> json" where
  "scalar_json (SString s) = JStr s"
| "scalar_json (SNumber n) = JNum n"
| "scalar_json (SBoolean b) = JBool b"

text \<open>
  Modelled from the spec: \<^verbatim>\<open>take\<close> of \<^verbatim>\<open>@smithy/smithy-client\<close> is not under src/.
  \<^verbatim>\<open>take(input, {k1: r1, ...})\<close> builds the wire object with one entry for each key of
  the table, in the table's order, whose field is present in the input: for the rule
  \<^verbatim>\<open>[]\<close> the field's value (the value function is then the embedding of the scalar),
  otherwise the rule's function applied to it. A field that is absent is never emitted,
  and a \<^verbatim>\<open>null\<close> counts as absent (\<open>present\<close>).
\<close>

definition take_entry :: "string \<Rightarrow> 'a option \<Rightarrow> ('a \<Rightarrow> json) \<Rightarrow> (string \<times> json) list" where
  "take_entry key v valueFn = (case v of None \<Rightarrow> [] | Some x \<Rightarrow> [(key, valueFn x)])"

definition present :: "json option \<Rightarrow> json option" where
  "present v = (case v of None \<Rightarrow> None | Some JNull \<Rightarrow> None | Some j \<Rightarrow> Some j)"

definition take_object :: "(string \<times> json) list list \<Rightarrow> json" where
  "take_object entries = JObj (concat entries)"

text \<open>\<^verbatim>\<open>input.filter((e: any) => e != null)\<close>: an array entry \<open>None\<close> is null or undefined.\<close>

definition filter_non_null :: "'a option list \<Rightarrow> 'a list" where
  "filter_non_null input = concat (map (\<lambda>e. case e of None \<Rightarrow> [] | Some x \<Rightarrow> [x]) input)"

subsection \<open>Request shapes\<close>

text \<open>
  The shapes of \<^verbatim>\<open>models_0\<close>, with the fields the rule tables name. A union is a
  datatype: one constructor for each member the visitor knows and one for the
  \<^verbatim>\<open>$unknown\<close> member, a pair of the tag and the value.
\<close>

record tool_use =
  tu_input :: "json option"
  tu_name :: "scalar option"
  tu_toolUseId :: "scalar option"

record assistant_response_message =
  arm_content :: "scalar option"
  arm_followupPrompt :: "json option"
  arm_messageId :: "scalar option"
  arm_references :: "json option"
  arm_supplementaryWebLinks :: "json option"
  arm_toolUses :: "tool_use option list option"

datatype image_source = ImageSource_bytes bytes | ImageSource_unknown string json

record image_block =
  ib_format :: "scalar option"
  ib_source :: "image_source option"

record tool_input_schema =
  tis_json :: "json option"

record tool_specification =
  ts_description :: "scalar option"
  ts_inputSchema :: "tool_input_schema option"
  ts_name :: "scalar option"

datatype tool = Tool_toolSpecification tool_specification | Tool_unknown string json

datatype tool_result_content_block =
    ToolResultContentBlock_json json
  | ToolResultContentBlock_text string
  | ToolResultContentBlock_unknown string json

record tool_result =
  tr_content :: "tool_result_content_block option list option"
  tr_status :: "scalar option"
  tr_toolUseId :: "scalar option"

record user_input_message_context =
  uimc_additionalContext :: "json option"
  uimc_appStudioContext :: "json option"
  uimc_consoleState :: "json option"
  uimc_diagnostic :: "json option"
  uimc_editorState :: "json option"
  uimc_envState :: "json option"
  uimc_gitState :: "json option"
  uimc_shellState :: "json option"
  uimc_toolResults :: "tool_result option list option"
  uimc_tools :: "tool option list option"
  uimc_userSettings :: "json option"

record user_input_message =
  uim_content :: "scalar option"
  uim_images :: "image_block option list option"
  uim_origin :: "scalar option"
  uim_userInputMessageContext :: "user_input_message_context option"
  uim_userIntent :: "scalar option"

datatype chat_message =
    ChatMessage_assistantResponseMessage assistant_response_message
  | ChatMessage_userInputMessage user_input_message
  | ChatMessage_unknown string json

record conversation_state =
  cs_chatTriggerType :: "scalar option"
  cs_conversationId :: "scalar option"
  cs_currentMessage :: "chat_message option"
  cs_customizationArn :: "scalar option"
  cs_history :: "chat_message option list option"

record send_message_request =
  smr_conversationState :: "conversation_state option"
  smr_dryRun :: "scalar option"
  smr_profileArn :: "scalar option"
  smr_source :: "scalar option"

text \<open>
  Modelled from the spec: the \<^verbatim>\<open>visit\<close> functions of the unions of \<^verbatim>\<open>models_0\<close> are not
  under src/. A visitor has one function for each known alternative and the fallback
  \<open>_\<close>, which receives the tag and the value of an unrecognized alternative; \<^verbatim>\<open>visit\<close>
  applies the function of the populated alternative.
\<close>

definition ChatMessage_visit ::
  "chat_message \<Rightarrow> (assistant_response_message \<Rightarrow> 'a) \<Rightarrow> (user_input_message \<Rightarrow> 'a)
     \<Rightarrow> (string \<Rightarrow> json \<Rightarrow> 'a) \<Rightarrow> 'a" where
  "ChatMessage_visit v assistantResponseMessage userInputMessage fallback =
     (case v of
        ChatMessage_assistantResponseMessage x \<Rightarrow> assistantResponseMessage x
      | ChatMessage_userInputMessage x \<Rightarrow> userInputMessage x
      | ChatMessage_unknown name' x \<Rightarrow> fallback name' x)"

definition ImageSource_visit ::
  "image_source \<Rightarrow> (bytes \<Rightarrow> 'a) \<Rightarrow> (string \<Rightarrow> json \<Rightarrow> 'a) \<Rightarrow> 'a" where
  "ImageSource_visit v bytes' fallback =
     (case v of
        ImageSource_bytes x \<Rightarrow> bytes' x
      | ImageSource_unknown name' x \<Rightarrow> fallback name' x)"

definition Tool_visit ::
  "tool \<Rightarrow> (tool_specification \<Rightarrow> 'a) \<Rightarrow> (string \<Rightarrow> json \<Rightarrow> 'a) \<Rightarrow> 'a" where
  "Tool_visit v toolSpecification fallback =
     (case v of
        Tool_toolSpecification x \<Rightarrow> toolSpecification x
      | Tool_unknown name' x \<Rightarrow> fallback name' x)"

definition ToolResultContentBlock_visit ::
  "tool_result_content_block \<Rightarrow> (json \<Rightarrow> 'a) \<Rightarrow> (string \<Rightarrow> 'a) \<Rightarrow> (string \<Rightarrow> json \<Rightarrow> 'a)
     \<Rightarrow> 'a" where
  "ToolResultContentBlock_visit v json' text' fallback =
     (case v of
        ToolResultContentBlock_json x \<Rightarrow> json' x
      | ToolResultContentBlock_text x \<Rightarrow> text' x
      | ToolResultContentBlock_unknown name' x \<Rightarrow> fallback name' x)"

subsection \<open>Serializers\<close>

text \<open>
  In the fallback of each visitor, \<^verbatim>\<open>{ name: value }\<close> is an object literal whose key is
  the identifier \<^verbatim>\<open>name\<close>, not the parameter's value.
\<close>

definition se_SensitiveDocument :: "json \<Rightarrow> serde_context \<Rightarrow> json" where
  "se_SensitiveDocument input context = input"

definition se_ToolUse :: "tool_use \<Rightarrow> serde_context \<Rightarrow> json" where
  "se_ToolUse input context = take_object
     [take_entry ''input'' (present (tu_input input)) (\<lambda>x. se_SensitiveDocument x context),
      take_entry ''name'' (tu_name input) scalar_json,
      take_entry ''toolUseId'' (tu_toolUseId input) scalar_json]"

definition se_ToolUses :: "tool_use option list \<Rightarrow> serde_context \<Rightarrow> json" where
  "se_ToolUses input context =
     JArr (map (\<lambda>entry. se_ToolUse entry context) (filter_non_null input))"

definition se_AssistantResponseMessage ::
  "('h, 'b, 'm) library \<Rightarrow> assistant_response_message \<Rightarrow> serde_context \<Rightarrow> json" where
  "se_AssistantResponseMessage lib input context = take_object
     [take_entry ''content'' (arm_content input) scalar_json,
      take_entry ''followupPrompt'' (present (arm_followupPrompt input)) (uscore_json lib),
      take_entry ''messageId'' (arm_messageId input) scalar_json,
      take_entry ''references'' (present (arm_references input)) (uscore_json lib),
      take_entry ''supplementaryWebLinks'' (present (arm_supplementaryWebLinks input))
        (uscore_json lib),
      take_entry ''toolUses'' (arm_toolUses input) (\<lambda>x. se_ToolUses x context)]"

definition se_ImageSource :: "image_source \<Rightarrow> serde_context \<Rightarrow> json" where
  "se_ImageSource input context =
     ImageSource_visit input
       (\<lambda>value. JObj [(''bytes'', JStr (base64Encoder context value))])
       (\<lambda>name' value. JObj [(''name'', value)])"

definition se_ImageBlock :: "image_block \<Rightarrow> serde_context \<Rightarrow> json" where
  "se_ImageBlock input context = take_object
     [take_entry ''format'' (ib_format input) scalar_json,
      take_entry ''source'' (ib_source input) (\<lambda>x. se_ImageSource x context)]"

definition se_ImageBlocks :: "image_block option list \<Rightarrow> serde_context \<Rightarrow> json" where
  "se_ImageBlocks input context =
     JArr (map (\<lambda>entry. se_ImageBlock entry context) (filter_non_null input))"

definition se_ToolInputSchema :: "tool_input_schema \<Rightarrow> serde_context \<Rightarrow> json" where
  "se_ToolInputSchema input context = take_object
     [take_entry ''json'' (present (tis_json input)) (\<lambda>x. se_SensitiveDocument x context)]"

definition se_ToolSpecification :: "tool_specification \<Rightarrow> serde_context \<Rightarrow> json" where
  "se_ToolSpecification input context = take_object
     [take_entry ''description'' (ts_description input) scalar_json,
      take_entry ''inputSchema'' (ts_inputSchema input) (\<lambda>x. se_ToolInputSchema x context),
      take_entry ''name'' (ts_name input) scalar_json]"

definition se_Tool :: "tool \<Rightarrow> serde_context \<Rightarrow> json" where
  "se_Tool input context =
     Tool_visit input
       (\<lambda>value. JObj [(''toolSpecification'', se_ToolSpecification value context)])
       (\<lambda>name' value. JObj [(''name'', value)])"

definition se_Tools :: "tool option list \<Rightarrow> serde_context \<Rightarrow> json" where
  "se_Tools input context =
     JArr (map (\<lambda>entry. se_Tool entry context) (filter_non_null input))"

definition se_ToolResultContentBlock :: "tool_result_content_block \<Rightarrow> serde_context \<Rightarrow> json" where
  "se_ToolResultContentBlock input context =
     ToolResultContentBlock_visit input
       (\<lambda>value. JObj [(''json'', se_SensitiveDocument value context)])
       (\<lambda>value. JObj [(''text'', JStr value)])
       (\<lambda>name' value. JObj [(''name'', value)])"

definition se_ToolResultContent ::
  "tool_result_content_block option list \<Rightarrow> serde_context \<Rightarrow> json" where
  "se_ToolResultContent input context =
     JArr (map (\<lambda>entry. se_ToolResultContentBlock entry context) (filter_non_null input))"

definition se_ToolResult :: "tool_result \<Rightarrow> serde_context \<Rightarrow> json" where
  "se_ToolResult input context = take_object
     [take_entry ''content'' (tr_content input) (\<lambda>x. se_ToolResultContent x context),
      take_entry ''status'' (tr_status input) scalar_json,
      take_entry ''toolUseId'' (tr_toolUseId input) scalar_json]"

definition se_ToolResults :: "tool_result option list \<Rightarrow> serde_context \<Rightarrow> json" where
  "se_ToolResults input context =
     JArr (map (\<lambda>entry. se_ToolResult entry context) (filter_non_null input))"

definition se_UserInputMessageContext ::
  "('h, 'b, 'm) library \<Rightarrow> user_input_message_context \<Rightarrow> serde_context \<Rightarrow> json" where
  "se_UserInputMessageContext lib input context = take_object
     [take_entry ''additionalContext'' (present (uimc_additionalContext input)) (uscore_json lib),
      take_entry ''appStudioContext'' (present (uimc_appStudioContext input)) (uscore_json lib),
      take_entry ''consoleState'' (present (uimc_consoleState input)) (uscore_json lib),
      take_entry ''diagnostic'' (present (uimc_diagnostic input)) (uscore_json lib),
      take_entry ''editorState'' (present (uimc_editorState input)) (uscore_json lib),
      take_entry ''envState'' (present (uimc_envState input)) (uscore_json lib),
      take_entry ''gitState'' (present (uimc_gitState input)) (uscore_json lib),
      take_entry ''shellState'' (present (uimc_shellState input)) (uscore_json lib),
      take_entry ''toolResults'' (uimc_toolResults input) (\<lambda>x. se_ToolResults x context),
      take_entry ''tools'' (uimc_tools input) (\<lambda>x. se_Tools x context),
      take_entry ''userSettings'' (present (uimc_userSettings input)) (uscore_json lib)]"

definition se_UserInputMessage ::
  "('h, 'b, 'm) library \<Rightarrow> user_input_message \<Rightarrow> serde_context \<Rightarrow> json" where
  "se_UserInputMessage lib input context = take_object
     [take_entry ''content'' (uim_content input) scalar_json,
      take_entry ''images'' (uim_images input) (\<lambda>x. se_ImageBlocks x context),
      take_entry ''origin'' (uim_origin input) scalar_json,
      take_entry ''userInputMessageContext'' (uim_userInputMessageContext input)
        (\<lambda>x. se_UserInputMessageContext lib x context),
      take_entry ''userIntent'' (uim_userIntent input) scalar_json]"

definition se_ChatMessage :: "('h, 'b, 'm) library \<Rightarrow> chat_message \<Rightarrow> serde_context \<Rightarrow> json" where
  "se_ChatMessage lib input context =
     ChatMessage_visit input
       (\<lambda>value. JObj [(''assistantResponseMessage'',
                        se_AssistantResponseMessage lib value context)])
       (\<lambda>value. JObj [(''userInputMessage'', se_UserInputMessage lib value context)])
       (\<lambda>name' value. JObj [(''name'', value)])"

definition se_ChatHistory ::
  "('h, 'b, 'm) library \<Rightarrow> chat_message option list \<Rightarrow> serde_context \<Rightarrow> json" where
  "se_ChatHistory lib input context =
     JArr (map (\<lambda>entry. se_ChatMessage lib entry context) (filter_non_null input))"

definition se_ConversationState ::
  "('h, 'b, 'm) library \<Rightarrow> conversation_state \<Rightarrow> serde_context \<Rightarrow> json" where
  "se_ConversationState lib input context = take_object
     [take_entry ''chatTriggerType'' (cs_chatTriggerType input) scalar_json,
      take_entry ''conversationId'' (cs_conversationId input) scalar_json,
      take_entry ''currentMessage'' (cs_currentMessage input)
        (\<lambda>x. se_ChatMessage lib x context),
      take_entry ''customizationArn'' (cs_customizationArn input) scalar_json,
      take_entry ''history'' (cs_history input) (\<lambda>x. se_ChatHistory lib x context)]"

definition se_SendMessageRequest ::
  "('h, 'b, 'm) library \<Rightarrow> send_message_request \<Rightarrow> serde_context \<Rightarrow> json" where
  "se_SendMessageRequest lib input context = take_object
     [take_entry ''conversationState'' (smr_conversationState input)
        (\<lambda>x. se_ConversationState lib x context),
      take_entry ''dryRun'' (smr_dryRun input) scalar_json,
      take_entry ''profileArn'' (smr_profileArn input) scalar_json,
      take_entry ''source'' (smr_source input) scalar_json]"

text \<open>The body of a request is the JSON value that \<^verbatim>\<open>JSON.stringify\<close> writes out.\<close>

definition se_SendMessageCommand ::
  "('h, 'b, 'm) library \<Rightarrow> send_message_request \<Rightarrow> serde_context \<Rightarrow> json http_request" where
  "se_SendMessageCommand lib input context =
     (let hdrs = sharedHeaders ''SendMessage'';
          body' = se_SendMessageRequest lib input context
      in buildHttpRpcRequest context hdrs ''/'' None (Some body'))"

definition se_GenerateCodeFromCommandsCommand ::
  "('h, 'b, 'm) library \<Rightarrow> json \<Rightarrow> serde_context \<Rightarrow> json http_request" where
  "se_GenerateCodeFromCommandsCommand lib input context =
     (let hdrs = sharedHeaders ''GenerateCodeFromCommands'';
          body' = uscore_json lib input
      in buildHttpRpcRequest context hdrs ''/'' None (Some body'))"

subsection \<open>Objects\<close>

text \<open>
  The own enumerable properties of a value, which an object spread and
  \<^verbatim>\<open>Object.assign\<close> copy: the members of an object, the indexed elements of an array,
  the indexed characters of a string, nothing for the other values.
\<close>

text \<open>The decimal numeral of an index, the name of an indexed property.\<close>

fun index_name :: "nat \<Rightarrow> string" where
  "index_name i =
     (if i div 10 = 0 then [] else index_name (i div 10)) @ [''0123456789'' ! (i mod 10)]"

fun own_entries :: "json \<Rightarrow> (string \<times> json) list" where
  "own_entries (JObj members) = members"
| "own_entries (JArr xs) = zip (map index_name [0..<length xs]) xs"
| "own_entries (JStr s) = zip (map index_name [0..<length s]) (map (\<lambda>c. JStr [c]) s)"
| "own_entries JNull = []"
| "own_entries (JBool b) = []"
| "own_entries (JNum n) = []"

text \<open>
  \<^verbatim>\<open>Object.assign(target, source)\<close>, also the effect of \<^verbatim>\<open>...source\<close> after the properties
  of \<open>target\<close> in an object literal: each property of the source is set in turn, and
  replaces a property of the same name.
\<close>

definition object_assign :: "(string \<times> 'v) list \<Rightarrow> (string \<times> 'v) list \<Rightarrow> (string \<times> 'v) list" where
  "object_assign target source = fold (\<lambda>(k, v). AList.update k v) source target"

text \<open>\<^verbatim>\<open>output[key]\<close> where it is read through \<^verbatim>\<open>take\<close>, which passes over a null.\<close>

definition member :: "json \<Rightarrow> string \<Rightarrow> json option" where
  "member output key = present (map_of (own_entries output) key)"

subsection \<open>Exceptions\<close>

datatype exception_kind =
    AccessDeniedException
  | ConflictException
  | DryRunOperationException
  | InternalServerException
  | ResourceNotFoundException
  | ServiceQuotaExceededException
  | ThrottlingException
  | ValidationException

text \<open>A property of the options object an exception is constructed from.\<close>

datatype 'h property = Metadata "'h response_metadata" | Member json

text \<open>
  \<^verbatim>\<open>__decorateServiceException(new K(options), body)\<close>: the exception of class \<open>K\<close>
  (the classes are declared in \<^verbatim>\<open>models_0\<close>), the options it is constructed from and
  the body it is decorated with.
\<close>

datatype 'h service_exception =
  ServiceException (ex_kind: exception_kind) (ex_options: "(string \<times> 'h property) list")
    (ex_additions: json)

text \<open>
  What a deserializer throws: a modelled exception, the default error that
  \<^verbatim>\<open>throwDefaultError\<close> builds from \<^verbatim>\<open>{output, parsedBody, errorCode}\<close>, the rejection of
  a body parser, or the \<^verbatim>\<open>TypeError\<close> of a failed expectation.
\<close>

datatype ('h, 'b) thrown =
    Thrown "'h service_exception"
  | DefaultError "('h, 'b) response" json "string option"
  | BodyRejected
  | TypeError

text \<open>\<^verbatim>\<open>{ $metadata: deserializeMetadata(parsedOutput), ...deserialized }\<close>\<close>

definition exception_options :: "'h response_metadata \<Rightarrow> json \<Rightarrow> (string \<times> 'h property) list" where
  "exception_options metadata deserialized =
     object_assign [(''$metadata'', Metadata metadata)]
       (map (\<lambda>(k, v). (k, Member v)) (own_entries deserialized))"

text \<open>
  The \<^verbatim>\<open>context\<close> argument of a deserializer is only handed on to the imported
  parsers, which are parameters here, so the deserializers take the library alone.
\<close>

definition de_AccessDeniedExceptionRes ::
  "('h, 'b, 'm) library \<Rightarrow> ('h, json) response \<Rightarrow> 'h service_exception" where
  "de_AccessDeniedExceptionRes lib parsedOutput =
     (let body' = body parsedOutput; deserialized = uscore_json lib body'
      in ServiceException AccessDeniedException
           (exception_options (deserializeMetadata parsedOutput) deserialized) body')"

definition de_ConflictExceptionRes ::
  "('h, 'b, 'm) library \<Rightarrow> ('h, json) response \<Rightarrow> 'h service_exception" where
  "de_ConflictExceptionRes lib parsedOutput =
     (let body' = body parsedOutput; deserialized = uscore_json lib body'
      in ServiceException ConflictException
           (exception_options (deserializeMetadata parsedOutput) deserialized) body')"

definition de_DryRunOperationExceptionRes ::
  "('h, 'b, 'm) library \<Rightarrow> ('h, json) response \<Rightarrow> 'h service_exception" where
  "de_DryRunOperationExceptionRes lib parsedOutput =
     (let body' = body parsedOutput; deserialized = uscore_json lib body'
      in ServiceException DryRunOperationException
           (exception_options (deserializeMetadata parsedOutput) deserialized) body')"

definition de_InternalServerExceptionRes ::
  "('h, 'b, 'm) library \<Rightarrow> ('h, json) response \<Rightarrow> 'h service_exception" where
  "de_InternalServerExceptionRes lib parsedOutput =
     (let body' = body parsedOutput; deserialized = uscore_json lib body'
      in ServiceException InternalServerException
           (exception_options (deserializeMetadata parsedOutput) deserialized) body')"

definition de_ResourceNotFoundExceptionRes ::
  "('h, 'b, 'm) library \<Rightarrow> ('h, json) response \<Rightarrow> 'h service_exception" where
  "de_ResourceNotFoundExceptionRes lib parsedOutput =
     (let body' = body parsedOutput; deserialized = uscore_json lib body'
      in ServiceException ResourceNotFoundException
           (exception_options (deserializeMetadata parsedOutput) deserialized) body')"

definition de_ServiceQuotaExceededExceptionRes ::
  "('h, 'b, 'm) library \<Rightarrow> ('h, json) response \<Rightarrow> 'h service_exception" where
  "de_ServiceQuotaExceededExceptionRes lib parsedOutput =
     (let body' = body parsedOutput; deserialized = uscore_json lib body'
      in ServiceException ServiceQuotaExceededException
           (exception_options (deserializeMetadata parsedOutput) deserialized) body')"

definition de_ThrottlingExceptionRes ::
  "('h, 'b, 'm) library \<Rightarrow> ('h, json) response \<Rightarrow> 'h service_exception" where
  "de_ThrottlingExceptionRes lib parsedOutput =
     (let body' = body parsedOutput; deserialized = uscore_json lib body'
      in ServiceException ThrottlingException
           (exception_options (deserializeMetadata parsedOutput) deserialized) body')"

definition de_ValidationExceptionRes ::
  "('h, 'b, 'm) library \<Rightarrow> ('h, json) response \<Rightarrow> 'h service_exception" where
  "de_ValidationExceptionRes lib parsedOutput =
     (let body' = body parsedOutput; deserialized = uscore_json lib body'
      in ServiceException ValidationException
           (exception_options (deserializeMetadata parsedOutput) deserialized) body')"

text \<open>\<^verbatim>\<open>{ ...output, body: parsed }\<close>\<close>

definition with_parsed_body :: "('h, 'x) response \<Rightarrow> json \<Rightarrow> ('h, json) response" where
  "with_parsed_body output parsed =
     \<lparr> statusCode = statusCode output, headers = headers output, body = parsed \<rparr>"

text \<open>
  The error dispatcher. The \<^verbatim>\<open>switch\<close> compares the error code with its labels by
  strict equality, in the order of the source; every branch throws.
\<close>

definition de_CommandError :: "('h, 'b, 'm) library \<Rightarrow> ('h, 'b) response \<Rightarrow> ('h, 'b) thrown + 'a" where
  "de_CommandError lib output =
     (case parseErrorBody lib (body output) of
        None \<Rightarrow> Inl BodyRejected
      | Some parsed \<Rightarrow>
          (let parsedOutput = with_parsed_body output parsed;
               errorCode = loadRestJsonErrorCode lib output (body parsedOutput)
           in if errorCode = Some ''AccessDeniedException'' \<or>
                 errorCode = Some ''com.amazon.aws.codewhisperer#AccessDeniedException''
              then Inl (Thrown (de_AccessDeniedExceptionRes lib parsedOutput))
              else if errorCode = Some ''InternalServerException'' \<or>
                 errorCode = Some ''com.amazon.aws.codewhisperer#InternalServerException''
              then Inl (Thrown (de_InternalServerExceptionRes lib parsedOutput))
              else if errorCode = Some ''ThrottlingException'' \<or>
                 errorCode = Some ''com.amazon.aws.codewhisperer#ThrottlingException''
              then Inl (Thrown (de_ThrottlingExceptionRes lib parsedOutput))
              else if errorCode = Some ''ValidationException'' \<or>
                 errorCode = Some ''com.amazon.aws.codewhisperer#ValidationException''
              then Inl (Thrown (de_ValidationExceptionRes lib parsedOutput))
              else if errorCode = Some ''ConflictException'' \<or>
                 errorCode = Some ''com.amazon.aws.codewhisperer#ConflictException''
              then Inl (Thrown (de_ConflictExceptionRes lib parsedOutput))
              else if errorCode = Some ''DryRunOperationException'' \<or>
                 errorCode = Some ''com.amazon.aws.codewhisperer#DryRunOperationException''
              then Inl (Thrown (de_DryRunOperationExceptionRes lib parsedOutput))
              else if errorCode = Some ''ResourceNotFoundException'' \<or>
                 errorCode = Some ''com.amazon.aws.codewhisperer#ResourceNotFoundException''
              then Inl (Thrown (de_ResourceNotFoundExceptionRes lib parsedOutput))
              else if errorCode = Some ''ServiceQuotaExceededException'' \<or>
                 errorCode = Some ''com.amazon.aws.codewhisperer#ServiceQuotaExceededException''
              then Inl (Thrown (de_ServiceQuotaExceededExceptionRes lib parsedOutput))
              else (let parsedBody = body parsedOutput
                    in Inl (DefaultError output parsedBody errorCode))))"

subsection \<open>Event deserializers\<close>

text \<open>
  An event handed to a deserializer callback is a \<^verbatim>\<open>Record<string, Message>\<close>; a frame
  of the stream is the event with the frame's name as its only key.
\<close>

type_synonym ('h, 'm) event = "(string \<times> ('h, 'm) response) list"

text \<open>
  \<^verbatim>\<open>const contents = {} as any; Object.assign(contents, x); return contents\<close>
\<close>

definition assigned_contents :: "json \<Rightarrow> json" where
  "assigned_contents x = JObj (object_assign [] (own_entries x))"

text \<open>The decoders of the interaction components, through \<^verbatim>\<open>take\<close>.\<close>

definition de_InteractionComponent :: "('h, 'b, 'm) library \<Rightarrow> json \<Rightarrow> json" where
  "de_InteractionComponent lib output = take_object
     [take_entry ''action'' (member output ''action'') (uscore_json lib),
      take_entry ''alert'' (member output ''alert'') (uscore_json lib),
      take_entry ''infrastructureUpdate'' (member output ''infrastructureUpdate'') (uscore_json lib),
      take_entry ''progress'' (member output ''progress'') (uscore_json lib),
      take_entry ''resource'' (member output ''resource'') (uscore_json lib),
      take_entry ''resourceList'' (member output ''resourceList'') (uscore_json lib),
      take_entry ''section'' (member output ''section'') (uscore_json lib),
      take_entry ''step'' (member output ''step'') (uscore_json lib),
      take_entry ''suggestions'' (member output ''suggestions'') (uscore_json lib),
      take_entry ''taskDetails'' (member output ''taskDetails'') (uscore_json lib),
      take_entry ''taskReference'' (member output ''taskReference'') (uscore_json lib),
      take_entry ''text'' (member output ''text'') (uscore_json lib)]"

text \<open>\<open>None\<close>: \<^verbatim>\<open>__expectString\<close> throws.\<close>

definition de_InteractionComponentEntry :: "('h, 'b, 'm) library \<Rightarrow> json \<Rightarrow> json option" where
  "de_InteractionComponentEntry lib output =
     (let component = take_entry ''interactionComponent'' (member output ''interactionComponent'')
                        (de_InteractionComponent lib)
      in case member output ''interactionComponentId'' of
           None \<Rightarrow> Some (take_object [component])
         | Some v \<Rightarrow>
             (case expectString lib v of
                None \<Rightarrow> None
              | Some s \<Rightarrow> Some (take_object [component, [(''interactionComponentId'', s)]])))"

text \<open>A value that \<^verbatim>\<open>output || []\<close> replaces by the empty array.\<close>

fun falsy :: "json \<Rightarrow> bool" where
  "falsy JNull = True"
| "falsy (JBool b) = (\<not> b)"
| "falsy (JNum n) = (n = 0)"
| "falsy (JStr s) = (s = [])"
| "falsy (JArr xs) = False"
| "falsy (JObj members) = False"

text \<open>\<open>None\<close>: the value is not an array and has no \<^verbatim>\<open>filter\<close>, or an entry's decoder throws.\<close>

definition de_InteractionComponentEntryList :: "('h, 'b, 'm) library \<Rightarrow> json \<Rightarrow> json option" where
  "de_InteractionComponentEntryList lib output =
     (case (if falsy output then JArr [] else output) of
        JArr xs \<Rightarrow>
          map_option JArr
            (those (map (de_InteractionComponentEntry lib) (filter (\<lambda>e. e \<noteq> JNull) xs)))
      | _ \<Rightarrow> None)"

definition de_InteractionComponentsEvent :: "('h, 'b, 'm) library \<Rightarrow> json \<Rightarrow> json option" where
  "de_InteractionComponentsEvent lib output =
     (case member output ''interactionComponentEntries'' of
        None \<Rightarrow> Some (take_object [])
      | Some v \<Rightarrow>
          map_option (\<lambda>entries. take_object [[(''interactionComponentEntries'', entries)]])
            (de_InteractionComponentEntryList lib v))"

text \<open>The deserializers of the event payloads.\<close>

definition de_AssistantResponseEvent_event ::
  "('h, 'b, 'm) library \<Rightarrow> ('h, 'm) response \<Rightarrow> ('h, 'b) thrown + json" where
  "de_AssistantResponseEvent_event lib output =
     (case parseBody lib (body output) of
        None \<Rightarrow> Inl BodyRejected
      | Some data \<Rightarrow> Inr (assigned_contents (uscore_json lib data)))"

definition de_CitationEvent_event ::
  "('h, 'b, 'm) library \<Rightarrow> ('h, 'm) response \<Rightarrow> ('h, 'b) thrown + json" where
  "de_CitationEvent_event lib output =
     (case parseBody lib (body output) of
        None \<Rightarrow> Inl BodyRejected
      | Some data \<Rightarrow> Inr (assigned_contents (uscore_json lib data)))"

definition de_CodeEvent_event ::
  "('h, 'b, 'm) library \<Rightarrow> ('h, 'm) response \<Rightarrow> ('h, 'b) thrown + json" where
  "de_CodeEvent_event lib output =
     (case parseBody lib (body output) of
        None \<Rightarrow> Inl BodyRejected
      | Some data \<Rightarrow> Inr (assigned_contents (uscore_json lib data)))"

definition de_CodeReferenceEvent_event ::
  "('h, 'b, 'm) library \<Rightarrow> ('h, 'm) response \<Rightarrow> ('h, 'b) thrown + json" where
  "de_CodeReferenceEvent_event lib output =
     (case parseBody lib (body output) of
        None \<Rightarrow> Inl BodyRejected
      | Some data \<Rightarrow> Inr (assigned_contents (uscore_json lib data)))"

definition de_DryRunSucceedEvent_event ::
  "('h, 'b, 'm) library \<Rightarrow> ('h, 'm) response \<Rightarrow> ('h, 'b) thrown + json" where
  "de_DryRunSucceedEvent_event lib output =
     (case parseBody lib (body output) of
        None \<Rightarrow> Inl BodyRejected
      | Some data \<Rightarrow> Inr (assigned_contents (uscore_json lib data)))"

definition de_FollowupPromptEvent_event ::
  "('h, 'b, 'm) library \<Rightarrow> ('h, 'm) response \<Rightarrow> ('h, 'b) thrown + json" where
  "de_FollowupPromptEvent_event lib output =
     (case parseBody lib (body output) of
        None \<Rightarrow> Inl BodyRejected
      | Some data \<Rightarrow> Inr (assigned_contents (uscore_json lib data)))"

definition de_IntentsEvent_event ::
  "('h, 'b, 'm) library \<Rightarrow> ('h, 'm) response \<Rightarrow> ('h, 'b) thrown + json" where
  "de_IntentsEvent_event lib output =
     (case parseBody lib (body output) of
        None \<Rightarrow> Inl BodyRejected
      | Some data \<Rightarrow> Inr (assigned_contents (uscore_json lib data)))"

definition de_InternalServerException_event ::
  "('h, 'b, 'm) library \<Rightarrow> ('h, 'm) response \<Rightarrow> ('h, 'b) thrown + 'h service_exception" where
  "de_InternalServerException_event lib output =
     (case parseBody lib (body output) of
        None \<Rightarrow> Inl BodyRejected
      | Some parsed \<Rightarrow> Inr (de_InternalServerExceptionRes lib (with_parsed_body output parsed)))"

definition de_InvalidStateEvent_event ::
  "('h, 'b, 'm) library \<Rightarrow> ('h, 'm) response \<Rightarrow> ('h, 'b) thrown + json" where
  "de_InvalidStateEvent_event lib output =
     (case parseBody lib (body output) of
        None \<Rightarrow> Inl BodyRejected
      | Some data \<Rightarrow> Inr (assigned_contents (uscore_json lib data)))"

definition de_MessageMetadataEvent_event ::
  "('h, 'b, 'm) library \<Rightarrow> ('h, 'm) response \<Rightarrow> ('h, 'b) thrown + json" where
  "de_MessageMetadataEvent_event lib output =
     (case parseBody lib (body output) of
        None \<Rightarrow> Inl BodyRejected
      | Some data \<Rightarrow> Inr (assigned_contents (uscore_json lib data)))"

definition de_ServiceQuotaExceededException_event ::
  "('h, 'b, 'm) library \<Rightarrow> ('h, 'm) response \<Rightarrow> ('h, 'b) thrown + 'h service_exception" where
  "de_ServiceQuotaExceededException_event lib output =
     (case parseBody lib (body output) of
        None \<Rightarrow> Inl BodyRejected
      | Some parsed \<Rightarrow> Inr (de_ServiceQuotaExceededExceptionRes lib (with_parsed_body output parsed)))"

definition de_SupplementaryWebLinksEvent_event ::
  "('h, 'b, 'm) library \<Rightarrow> ('h, 'm) response \<Rightarrow> ('h, 'b) thrown + json" where
  "de_SupplementaryWebLinksEvent_event lib output =
     (case parseBody lib (body output) of
        None \<Rightarrow> Inl BodyRejected
      | Some data \<Rightarrow> Inr (assigned_contents (uscore_json lib data)))"

definition de_ToolUseEvent_event ::
  "('h, 'b, 'm) library \<Rightarrow> ('h, 'm) response \<Rightarrow> ('h, 'b) thrown + json" where
  "de_ToolUseEvent_event lib output =
     (case parseBody lib (body output) of
        None \<Rightarrow> Inl BodyRejected
      | Some data \<Rightarrow> Inr (assigned_contents (uscore_json lib data)))"

definition de_ValidationException_event ::
  "('h, 'b, 'm) library \<Rightarrow> ('h, 'm) response \<Rightarrow> ('h, 'b) thrown + 'h service_exception" where
  "de_ValidationException_event lib output =
     (case parseBody lib (body output) of
        None \<Rightarrow> Inl BodyRejected
      | Some parsed \<Rightarrow> Inr (de_ValidationExceptionRes lib (with_parsed_body output parsed)))"

definition de_InteractionComponentsEvent_event ::
  "('h, 'b, 'm) library \<Rightarrow> ('h, 'm) response \<Rightarrow> ('h, 'b) thrown + json" where
  "de_InteractionComponentsEvent_event lib output =
     (case parseBody lib (body output) of
        None \<Rightarrow> Inl BodyRejected
      | Some data \<Rightarrow>
          (case de_InteractionComponentsEvent lib data of
             None \<Rightarrow> Inl TypeError
           | Some decoded \<Rightarrow> Inr (assigned_contents decoded)))"

subsection \<open>The event stream demultiplexers\<close>

text \<open>
  The members of the two response stream unions. The \<^verbatim>\<open>$unknown\<close> member that the
  callbacks build holds \<^verbatim>\<open>output\<close>, the response body that was handed to the
  demultiplexer.
\<close>

datatype ('h, 'b) ChatResponseStream =
    ChatResponseStream_messageMetadataEvent json
  | ChatResponseStream_assistantResponseEvent json
  | ChatResponseStream_dryRunSucceedEvent json
  | ChatResponseStream_codeReferenceEvent json
  | ChatResponseStream_supplementaryWebLinksEvent json
  | ChatResponseStream_followupPromptEvent json
  | ChatResponseStream_codeEvent json
  | ChatResponseStream_intentsEvent json
  | ChatResponseStream_interactionComponentsEvent json
  | ChatResponseStream_toolUseEvent json
  | ChatResponseStream_citationEvent json
  | ChatResponseStream_invalidStateEvent json
  | ChatResponseStream_error "'h service_exception"
  | ChatResponseStream_unknown 'b

datatype ('h, 'b) GenerateCodeFromCommandsResponseStream =
    GenerateCodeFromCommandsResponseStream_codeEvent json
  | GenerateCodeFromCommandsResponseStream_Error "'h service_exception"
  | GenerateCodeFromCommandsResponseStream_QuotaLevelExceededError "'h service_exception"
  | GenerateCodeFromCommandsResponseStream_ValidationError "'h service_exception"
  | GenerateCodeFromCommandsResponseStream_unknown 'b

text \<open>
  \<^verbatim>\<open>if (event[key] != null) { return { key: await decoder(event[key], context) }; }\<close>
  followed by the rest of the callback: a rejection of the decoder rejects the callback.
\<close>

definition if_event ::
  "('h, 'm) event \<Rightarrow> string \<Rightarrow> (('h, 'm) response \<Rightarrow> 'e + 'v) \<Rightarrow> ('v \<Rightarrow> 'r) \<Rightarrow> 'e + 'r
     \<Rightarrow> 'e + 'r" where
  "if_event event key decoder wrap otherwise =
     (case map_of event key of
        Some message \<Rightarrow> map_sum id wrap (decoder message)
      | None \<Rightarrow> otherwise)"

text \<open>The callback that \<^verbatim>\<open>de_ChatResponseStream\<close> hands to the marshaller.\<close>

definition de_ChatResponseStream_event ::
  "('h, 'b, 'm) library \<Rightarrow> 'b \<Rightarrow> ('h, 'm) event
     \<Rightarrow> ('h, 'b) thrown + ('h, 'b) ChatResponseStream" where
  "de_ChatResponseStream_event lib output event =
     if_event event ''messageMetadataEvent'' (de_MessageMetadataEvent_event lib)
       ChatResponseStream_messageMetadataEvent (
     if_event event ''assistantResponseEvent'' (de_AssistantResponseEvent_event lib)
       ChatResponseStream_assistantResponseEvent (
     if_event event ''dryRunSucceedEvent'' (de_DryRunSucceedEvent_event lib)
       ChatResponseStream_dryRunSucceedEvent (
     if_event event ''codeReferenceEvent'' (de_CodeReferenceEvent_event lib)
       ChatResponseStream_codeReferenceEvent (
     if_event event ''supplementaryWebLinksEvent'' (de_SupplementaryWebLinksEvent_event lib)
       ChatResponseStream_supplementaryWebLinksEvent (
     if_event event ''followupPromptEvent'' (de_FollowupPromptEvent_event lib)
       ChatResponseStream_followupPromptEvent (
     if_event event ''codeEvent'' (de_CodeEvent_event lib)
       ChatResponseStream_codeEvent (
     if_event event ''intentsEvent'' (de_IntentsEvent_event lib)
       ChatResponseStream_intentsEvent (
     if_event event ''interactionComponentsEvent'' (de_InteractionComponentsEvent_event lib)
       ChatResponseStream_interactionComponentsEvent (
     if_event event ''toolUseEvent'' (de_ToolUseEvent_event lib)
       ChatResponseStream_toolUseEvent (
     if_event event ''citationEvent'' (de_CitationEvent_event lib)
       ChatResponseStream_citationEvent (
     if_event event ''invalidStateEvent'' (de_InvalidStateEvent_event lib)
       ChatResponseStream_invalidStateEvent (
     if_event event ''error'' (de_InternalServerException_event lib)
       ChatResponseStream_error (
     Inr (ChatResponseStream_unknown output))))))))))))))"

text \<open>The callback that \<^verbatim>\<open>de_GenerateCodeFromCommandsResponseStream\<close> hands to the marshaller.\<close>

definition de_GenerateCodeFromCommandsResponseStream_event ::
  "('h, 'b, 'm) library \<Rightarrow> 'b \<Rightarrow> ('h, 'm) event
     \<Rightarrow> ('h, 'b) thrown + ('h, 'b) GenerateCodeFromCommandsResponseStream" where
  "de_GenerateCodeFromCommandsResponseStream_event lib output event =
     if_event event ''codeEvent'' (de_CodeEvent_event lib)
       GenerateCodeFromCommandsResponseStream_codeEvent (
     if_event event ''Error'' (de_InternalServerException_event lib)
       GenerateCodeFromCommandsResponseStream_Error (
     if_event event ''QuotaLevelExceededError'' (de_ServiceQuotaExceededException_event lib)
       GenerateCodeFromCommandsResponseStream_QuotaLevelExceededError (
     if_event event ''ValidationError'' (de_ValidationException_event lib)
       GenerateCodeFromCommandsResponseStream_ValidationError (
     Inr (GenerateCodeFromCommandsResponseStream_unknown output)))))"

text \<open>
  \<^verbatim>\<open>context.eventStreamMarshaller.deserialize(output, callback)\<close>: the marshaller belongs
  to the context the caller supplies, so it is a parameter. It receives the response
  body and the callback; what it returns, of type \<open>'s\<close>, is the stream.
\<close>

type_synonym ('h, 'b, 'm, 'r, 's) marshaller =
  "'b \<Rightarrow> (('h, 'm) event \<Rightarrow> ('h, 'b) thrown + 'r) \<Rightarrow> 's"

definition de_ChatResponseStream ::
  "('h, 'b, 'm, ('h, 'b) ChatResponseStream, 's) marshaller \<Rightarrow> ('h, 'b, 'm) library \<Rightarrow> 'b \<Rightarrow> 's" where
  "de_ChatResponseStream deserialize lib output =
     deserialize output (de_ChatResponseStream_event lib output)"

definition de_GenerateCodeFromCommandsResponseStream ::
  "('h, 'b, 'm, ('h, 'b) GenerateCodeFromCommandsResponseStream, 's) marshaller
     \<Rightarrow> ('h, 'b, 'm) library \<Rightarrow> 'b \<Rightarrow> 's" where
  "de_GenerateCodeFromCommandsResponseStream deserialize lib output =
     deserialize output (de_GenerateCodeFromCommandsResponseStream_event lib output)"

subsection \<open>Command deserializers\<close>

record ('h, 's) SendMessageCommandOutput =
  smo_metadata :: "'h response_metadata"
  sendMessageResponse :: 's

record ('h, 's) GenerateCodeFromCommandsCommandOutput =
  gco_metadata :: "'h response_metadata"
  generatedCodeFromCommandsResponse :: 's

text \<open>\<^verbatim>\<open>output.statusCode >= 300\<close>; the comparison is false on \<^verbatim>\<open>undefined\<close>.\<close>

definition status_at_least_300 :: "('h, 'b) response \<Rightarrow> bool" where
  "status_at_least_300 output = (case statusCode output of None \<Rightarrow> False | Some c \<Rightarrow> 300 \<le> c)"

definition de_SendMessageCommand ::
  "('h, 'b, 'm, ('h, 'b) ChatResponseStream, 's) marshaller \<Rightarrow> ('h, 'b, 'm) library
     \<Rightarrow> ('h, 'b) response \<Rightarrow> ('h, 'b) thrown + ('h, 's) SendMessageCommandOutput" where
  "de_SendMessageCommand deserialize lib output =
     (if status_at_least_300 output then de_CommandError lib output
      else Inr \<lparr> smo_metadata = deserializeMetadata output,
                 sendMessageResponse = de_ChatResponseStream deserialize lib (body output) \<rparr>)"

definition de_GenerateCodeFromCommandsCommand ::
  "('h, 'b, 'm, ('h, 'b) GenerateCodeFromCommandsResponseStream, 's) marshaller
     \<Rightarrow> ('h, 'b, 'm) library \<Rightarrow> ('h, 'b) response
     \<Rightarrow> ('h, 'b) thrown + ('h, 's) GenerateCodeFromCommandsCommandOutput" where
  "de_GenerateCodeFromCommandsCommand deserialize lib output =
     (if status_at_least_300 output then de_CommandError lib output
      else Inr \<lparr> gco_metadata = deserializeMetadata output,
                 generatedCodeFromCommandsResponse =
                   de_GenerateCodeFromCommandsResponseStream deserialize lib (body output) \<rparr>)"

subsection \<open>Names of the exceptions\<close>

text \<open>
  The labels of the dispatcher's \<^verbatim>\<open>switch\<close>: each exception class has its bare name and
  the name qualified by the service's namespace.
\<close>

fun exception_name :: "exception_kind \<Rightarrow> string" where
  "exception_name AccessDeniedException = ''AccessDeniedException''"
| "exception_name ConflictException = ''ConflictException''"
| "exception_name DryRunOperationException = ''DryRunOperationException''"
| "exception_name InternalServerException = ''InternalServerException''"
| "exception_name ResourceNotFoundException = ''ResourceNotFoundException''"
| "exception_name ServiceQuotaExceededException = ''ServiceQuotaExceededException''"
| "exception_name ThrottlingException = ''ThrottlingException''"
| "exception_name ValidationException = ''ValidationException''"

definition qualified_name :: "exception_kind \<Rightarrow> string" where
  "qualified_name k = ''com.amazon.aws.codewhisperer#'' @ exception_name k"

definition exception_kinds :: "exception_kind list" where
  "exception_kinds =
     [AccessDeniedException, ConflictException, DryRunOperationException,
      InternalServerException, ResourceNotFoundException, ServiceQuotaExceededException,
      ThrottlingException, ValidationException]"

text \<open>The class of the modelled exception a call fails with, if it fails with one.\<close>

definition thrown_kind :: "('h, 'b) thrown + 'a \<Rightarrow> exception_kind option" where
  "thrown_kind r = (case r of Inl (Thrown e) \<Rightarrow> Some (ex_kind e) | _ \<Rightarrow> None)"

text \<open>The \<^verbatim>\<open>$metadata\<close> property of the options object of an exception.\<close>

definition options_metadata :: "'h service_exception \<Rightarrow> 'h property option" where
  "options_metadata e = map_of (ex_options e) ''$metadata''"

subsection \<open>The error code of a response\<close>

text \<open>
  Modelled from the spec: \<^verbatim>\<open>loadRestJsonErrorCode\<close> of \<^verbatim>\<open>@aws-sdk/core\<close> is not under src/.
  Sections 4.5 and 6: the error code is read from a response header and otherwise from
  a member of the JSON body, and it is normalized by stripping the namespace prefix that
  ends with \<open>#\<close>. In the library the header is \<open>x-amzn-errortype\<close> (header names are
  lower case, as \<open>deserializeMetadata\<close> reads them), the members are \<open>code\<close>, in any
  letter case, before \<open>__type\<close>, a code that is a number is written in decimal,
  and the normalizer first cuts the code at a comma and at a colon and then keeps the
  text between the first \<open>#\<close> and the next. A code member that is neither a
  string nor a number is left out of the model (\<open>None\<close>).
\<close>

definition is_code_key :: "string \<Rightarrow> bool" where
  "is_code_key k =
     (case k of
        [k1, k2, k3, k4] \<Rightarrow>
          (k1 = CHR ''c'' \<or> k1 = CHR ''C'') \<and> (k2 = CHR ''o'' \<or> k2 = CHR ''O'') \<and>
          (k3 = CHR ''d'' \<or> k3 = CHR ''D'') \<and> (k4 = CHR ''e'' \<or> k4 = CHR ''E'')
      | _ \<Rightarrow> False)"

fun code_text :: "json \<Rightarrow> string option" where
  "code_text (JStr s) = Some s"
| "code_text (JNum n) = Some ((if n < 0 then ''-'' else []) @ index_name (nat \<bar>n\<bar>))"
| "code_text JNull = None"
| "code_text (JBool b) = None"
| "code_text (JArr xs) = None"
| "code_text (JObj members) = None"

text \<open>The error code as it is on the wire, before it is normalized.\<close>

definition wire_error_code :: "(string, 'b) response \<Rightarrow> json \<Rightarrow> string option" where
  "wire_error_code output data =
     (case headers output ''x-amzn-errortype'' of
        Some h \<Rightarrow> Some h
      | None \<Rightarrow>
          (case data of
             JObj members \<Rightarrow>
               (case find (\<lambda>(k, v). is_code_key k) members of
                  Some (k, v) \<Rightarrow> code_text v
                | None \<Rightarrow>
                    (case map_of members ''__type'' of
                       Some v \<Rightarrow> code_text v
                     | None \<Rightarrow> None))
           | _ \<Rightarrow> None))"

definition sanitizeErrorCode :: "string \<Rightarrow> string" where
  "sanitizeErrorCode rawValue =
     (let upToComma = takeWhile (\<lambda>c. c \<noteq> CHR '','') rawValue;
          upToColon = takeWhile (\<lambda>c. c \<noteq> CHR '':'') upToComma
      in if CHR ''#'' \<in> set upToColon
         then takeWhile (\<lambda>c. c \<noteq> CHR ''#'') (tl (dropWhile (\<lambda>c. c \<noteq> CHR ''#'') upToColon))
         else upToColon)"

definition core_loadRestJsonErrorCode :: "(string, 'b) response \<Rightarrow> json \<Rightarrow> string option" where
  "core_loadRestJsonErrorCode output data =
     map_option sanitizeErrorCode (wire_error_code output data)"

subsection \<open>The frame loop\<close>



subsection \<open>Sample inputs\<close>

text \<open>
  A library for the examples: a message body is the JSON value it parses to, the error
  code is read by \<open>core_loadRestJsonErrorCode\<close>, \<^verbatim>\<open>_json\<close> returns its argument, and the
  parser of error bodies is an argument. \<open>json_text\<close> is a parser for which a body that
  is a bare string stands for text that is not JSON: it is rejected.
\<close>

definition json_text :: "json \<Rightarrow> json option" where
  "json_text b = (case b of JStr s \<Rightarrow> None | _ \<Rightarrow> Some b)"

definition sample_lib :: "('b \<Rightarrow> json option) \<Rightarrow> (string, 'b, json) library" where
  "sample_lib errorBodyParser =
     \<lparr> parseBody = Some,
       parseErrorBody = errorBodyParser,
       loadRestJsonErrorCode = core_loadRestJsonErrorCode,
       uscore_json = (\<lambda>j. j),
       expectString = (\<lambda>j. case j of JStr s \<Rightarrow> Some (JStr s) | _ \<Rightarrow> None) \<rparr>"

text \<open>The standard base64 encoding, for the encoder of the sample context.\<close>

definition base64_alphabet :: string where
  "base64_alphabet = ''ABCDEFGHIJKLMNOPQRSTUVWXYZabcdefghijklmnopqrstuvwxyz0123456789+/''"

fun toBase64 :: "nat list \<Rightarrow> string" where
  "toBase64 [] = []"
| "toBase64 [a] =
     [base64_alphabet ! (a div 4), base64_alphabet ! ((a mod 4) * 16), CHR ''='', CHR ''='']"
| "toBase64 [a, b] =
     [base64_alphabet ! (a div 4), base64_alphabet ! ((a mod 4) * 16 + b div 16),
      base64_alphabet ! ((b mod 16) * 4), CHR ''='']"
| "toBase64 (a # b # c # rest) =
     [base64_alphabet ! (a div 4), base64_alphabet ! ((a mod 4) * 16 + b div 16),
      base64_alphabet ! ((b mod 16) * 4 + c div 64), base64_alphabet ! (c mod 64)]
     @ toBase64 rest"

definition sample_context :: serde_context where
  "sample_context =
     \<lparr> base64Encoder = (\<lambda>value. toBase64 (map unat value)),
       endpoint = \<lparr> ep_hostname = ''q.us-east-1.amazonaws.com'', ep_protocol = None,
                    ep_port = None, ep_path = ''/v1/'' \<rparr> \<rparr>"

text \<open>A response with a request id whose body is the JSON value \<open>parsed\<close>.\<close>

definition error_response :: "int \<Rightarrow> json \<Rightarrow> (string, json) response" where
  "error_response status parsed =
     \<lparr> statusCode = Some status, headers = [''x-amzn-requestid'' \<mapsto> ''abc-123''],
       body = parsed \<rparr>"

definition error_body :: "string \<Rightarrow> json" where
  "error_body code = JObj [(''__type'', JStr code), (''message'', JStr ''boom'')]"

text \<open>An event stream message whose body is the JSON value \<open>parsed\<close>, and a frame.\<close>

definition sample_message :: "json \<Rightarrow> (string, json) response" where
  "sample_message parsed = \<lparr> statusCode = None, headers = Map.empty, body = parsed \<rparr>"

definition frame :: "string \<Rightarrow> json \<Rightarrow> (string, json) event" where
  "frame name' parsed = [(name', sample_message parsed)]"

section \<open>Properties\<close>

subsection \<open>Strings\<close>

lemma endsWith_slash: "endsWith s ''/'' \<longleftrightarrow> s \<noteq> [] \<and> last s = CHR ''/''"
proof (cases s rule: rev_cases)
  case Nil
  then show ?thesis by (simp add: endsWith_def)
next
  case (snoc ys y)
  then show ?thesis by (auto simp: endsWith_def)
qed

lemma slice_drop_last: "slice s 0 (- 1) = butlast s"
proof (cases s rule: rev_cases)
  case Nil
  then show ?thesis by (simp add: slice_def slice_index_def)
next
  case (snoc ys y)
  then show ?thesis by (simp add: slice_def slice_index_def Let_def)
qed

subsection \<open>The metadata extractor\<close>

text \<open>
  Claim C8. For every response, the extracted metadata has the response's status code,
  as \<open>requestId\<close> the value of the first of the headers \<open>x-amzn-requestid\<close>,
  \<open>x-amzn-request-id\<close>, \<open>x-amz-request-id\<close> that is present (nothing when none is), as
  \<open>extendedRequestId\<close> the header \<open>x-amz-id-2\<close> and as \<open>cfId\<close> the header \<open>x-amz-cf-id\<close>.
\<close>

theorem deserializeMetadata_mapping:
  "httpStatusCode (deserializeMetadata output) = statusCode output \<and>
   requestId (deserializeMetadata output) =
     (case filter (\<lambda>k. headers output k \<noteq> None)
             [''x-amzn-requestid'', ''x-amzn-request-id'', ''x-amz-request-id''] of
        [] \<Rightarrow> None
      | k # _ \<Rightarrow> headers output k) \<and>
   extendedRequestId (deserializeMetadata output) = headers output ''x-amz-id-2'' \<and>
   cfId (deserializeMetadata output) = headers output ''x-amz-cf-id''"
  by (auto simp: deserializeMetadata_def nullish_def split: option.splits)

theorem deserializeMetadata_mapping_witness:
  "requestId (deserializeMetadata
      \<lparr> statusCode = Some 500,
        headers = [''x-amz-request-id'' \<mapsto> ''zzz'', ''x-amzn-request-id'' \<mapsto> ''abc-123''],
        body = () \<rparr>) = Some ''abc-123'' \<and>
   httpStatusCode (deserializeMetadata
      \<lparr> statusCode = Some 500,
        headers = [''x-amz-request-id'' \<mapsto> ''zzz'', ''x-amzn-request-id'' \<mapsto> ''abc-123''],
        body = () \<rparr>) = Some 500"
  using deserializeMetadata_mapping
    [of "\<lparr> statusCode = Some 500,
           headers = [''x-amz-request-id'' \<mapsto> ''zzz'', ''x-amzn-request-id'' \<mapsto> ''abc-123''],
           body = () \<rparr>"]
  by simp

subsection \<open>The request envelope builder\<close>

lemma charAt_slash: "charAt s 0 \<noteq> ''/'' \<longleftrightarrow> s = [] \<or> hd s \<noteq> CHR ''/''"
  by (cases s) (simp_all add: charAt_def)

text \<open>
  Claim C7, as amended. For every endpoint and operation path, the request built has
  method POST, as path the base path followed by the operation path, the base path's
  last character dropped when it is a slash, with a slash put in front by the request's
  constructor when that concatenation does not begin with one (it is \<open>/\<close> when the
  concatenation is empty), and the body it was given, if any. So the base paths \<open>/v1/\<close>
  and \<open>/v1\<close> both join with \<open>/chat\<close> to \<open>/v1/chat\<close>.
\<close>

theorem buildHttpRpcRequest_envelope:
  "req_method (buildHttpRpcRequest ctx hdrs path host b) = ''POST'' \<and>
   req_path (buildHttpRpcRequest ctx hdrs path host b) =
     (let joined =
            (if ep_path (endpoint ctx) \<noteq> [] \<and> last (ep_path (endpoint ctx)) = CHR ''/''
             then butlast (ep_path (endpoint ctx)) @ path
             else ep_path (endpoint ctx) @ path)
      in if joined = [] then ''/''
         else if hd joined = CHR ''/'' then joined
         else ''/'' @ joined) \<and>
   req_body (buildHttpRpcRequest ctx hdrs path host b) = b \<and>
   req_path (buildHttpRpcRequest (ctx\<lparr>endpoint := ep\<lparr>ep_path := ''/v1/''\<rparr>\<rparr>)
                hdrs ''/chat'' host b) = ''/v1/chat'' \<and>
   req_path (buildHttpRpcRequest (ctx\<lparr>endpoint := ep\<lparr>ep_path := ''/v1''\<rparr>\<rparr>)
                hdrs ''/chat'' host b) = ''/v1/chat''"
  by (simp add: buildHttpRpcRequest_def new_HttpRequest_def Let_def endsWith_slash
      slice_drop_last charAt_slash)

theorem buildHttpRpcRequest_envelope_witness:
  "req_path (buildHttpRpcRequest sample_context (sharedHeaders ''SendMessage'') ''/'' None
      (Some (JObj []))) = ''/v1/'' \<and>
   req_body (buildHttpRpcRequest sample_context (sharedHeaders ''SendMessage'') ''/'' None
      (None :: json option)) = None \<and>
   req_method (buildHttpRpcRequest sample_context (sharedHeaders ''SendMessage'') ''/'' None
      (Some (JObj []))) = ''POST''"
  using buildHttpRpcRequest_envelope
      [where ctx = sample_context and hdrs = "sharedHeaders ''SendMessage''" and path = "''/''"
         and host = None and b = "Some (JObj [])"]
    buildHttpRpcRequest_envelope
      [where ctx = sample_context and hdrs = "sharedHeaders ''SendMessage''" and path = "''/''"
         and host = None and b = "None :: json option"]
  by (simp add: sample_context_def)

text \<open>
  The claim as stated says the path is the concatenation for every base path: for the
  base path \<open>v1\<close> the concatenation with \<open>/chat\<close> is \<open>v1/chat\<close> and the request's path is
  \<open>/v1/chat\<close>; for an empty base path and an empty operation path it is \<open>/\<close>.
\<close>

theorem buildHttpRpcRequest_concatenation_counterexample:
  "req_path (buildHttpRpcRequest
      (sample_context\<lparr>endpoint := (endpoint sample_context)\<lparr>ep_path := ''v1''\<rparr>\<rparr>)
      (sharedHeaders ''SendMessage'') ''/chat'' None (None :: json option)) = ''/v1/chat'' \<and>
   req_path (buildHttpRpcRequest
      (sample_context\<lparr>endpoint := (endpoint sample_context)\<lparr>ep_path := ''v1''\<rparr>\<rparr>)
      (sharedHeaders ''SendMessage'') ''/chat'' None (None :: json option)) \<noteq> ''v1'' @ ''/chat'' \<and>
   req_path (buildHttpRpcRequest
      (sample_context\<lparr>endpoint := (endpoint sample_context)\<lparr>ep_path := []\<rparr>\<rparr>)
      (sharedHeaders ''SendMessage'') [] None (None :: json option)) = ''/''"
  by (simp add: buildHttpRpcRequest_def new_HttpRequest_def Let_def endsWith_def charAt_def
      sample_context_def)

subsection \<open>Unfolding\<close>

lemmas exception_res_defs =
  de_AccessDeniedExceptionRes_def de_ConflictExceptionRes_def de_DryRunOperationExceptionRes_def
  de_InternalServerExceptionRes_def de_ResourceNotFoundExceptionRes_def
  de_ServiceQuotaExceededExceptionRes_def de_ThrottlingExceptionRes_def
  de_ValidationExceptionRes_def

lemmas sample_defs =
  sample_lib_def core_loadRestJsonErrorCode_def wire_error_code_def sanitizeErrorCode_def
  is_code_key_def json_text_def error_response_def error_body_def sample_message_def frame_def

lemmas dispatch_defs =
  de_CommandError_def Let_def with_parsed_body_def exception_res_defs exception_options_def
  object_assign_def deserializeMetadata_def nullish_def

lemmas visit_defs =
  ChatMessage_visit_def ImageSource_visit_def Tool_visit_def ToolResultContentBlock_visit_def

subsection \<open>Objects and exception options\<close>

lemma object_assign_other:
  "key \<notin> fst ` set source \<Longrightarrow> map_of (object_assign target source) key = map_of target key"
  unfolding object_assign_def
  by (induction source arbitrary: target) (auto simp: update_conv')

lemma exception_options_metadata:
  assumes "''$metadata'' \<notin> fst ` set (own_entries deserialized)"
  shows "map_of (exception_options md deserialized) ''$metadata'' = Some (Metadata md)"
proof -
  have "''$metadata'' \<notin> fst ` set (map (\<lambda>(k, v). (k, Member v)) (own_entries deserialized))"
    using assms by (auto simp: image_iff)
  from object_assign_other [OF this, of "[(''$metadata'', Metadata md)]"]
  show ?thesis
    by (simp add: exception_options_def)
qed

lemma with_parsed_body_metadata:
  "deserializeMetadata (with_parsed_body output parsed) = deserializeMetadata output"
  by (simp add: deserializeMetadata_def with_parsed_body_def)

subsection \<open>The error dispatcher\<close>

lemma de_CommandError_match:
  assumes "parseErrorBody lib (body output) = Some parsed"
      and "loadRestJsonErrorCode lib output parsed = Some (exception_name k) \<or>
           loadRestJsonErrorCode lib output parsed = Some (qualified_name k)"
  shows "(de_CommandError lib output :: ('h, 'b) thrown + 'a) =
           Inl (Thrown (ServiceException k
             (exception_options (deserializeMetadata (with_parsed_body output parsed))
                (uscore_json lib parsed)) parsed))"
  using assms
  by (cases k)
     (auto simp: de_CommandError_def Let_def qualified_name_def exception_res_defs
        with_parsed_body_def)

lemma de_CommandError_default:
  assumes "parseErrorBody lib (body output) = Some parsed"
      and "\<forall>k. loadRestJsonErrorCode lib output parsed \<noteq> Some (exception_name k) \<and>
               loadRestJsonErrorCode lib output parsed \<noteq> Some (qualified_name k)"
  shows "(de_CommandError lib output :: ('h, 'b) thrown + 'a) =
           Inl (DefaultError output parsed (loadRestJsonErrorCode lib output parsed))"
proof -
  have "loadRestJsonErrorCode lib output parsed \<noteq> Some (exception_name k) \<and>
        loadRestJsonErrorCode lib output parsed \<noteq> Some (qualified_name k)" for k
    using assms(2) by blast
  from this [of AccessDeniedException] this [of ConflictException]
    this [of DryRunOperationException] this [of InternalServerException]
    this [of ResourceNotFoundException] this [of ServiceQuotaExceededException]
    this [of ThrottlingException] this [of ValidationException]
  show ?thesis
    using assms(1)
    by (simp add: de_CommandError_def Let_def qualified_name_def with_parsed_body_def)
qed

lemma de_CommandError_fails: "isl (de_CommandError lib output)"
  by (simp add: de_CommandError_def Let_def split: option.splits)

lemma exception_kinds_all: "set exception_kinds = UNIV"
proof
  show "UNIV \<subseteq> set exception_kinds"
  proof
    fix k :: exception_kind
    show "k \<in> set exception_kinds"
      by (cases k) (simp_all add: exception_kinds_def)
  qed
qed simp

lemma sanitizeErrorCode_bare: "sanitizeErrorCode (exception_name k) = exception_name k"
  by (cases k) (simp_all add: sanitizeErrorCode_def)

lemma takeWhile_all: "c \<notin> set xs \<Longrightarrow> takeWhile (\<lambda>x. x \<noteq> c) (xs @ ys) = xs @ takeWhile (\<lambda>x. x \<noteq> c) ys"
  by (induction xs) auto

lemma dropWhile_all: "c \<notin> set xs \<Longrightarrow> dropWhile (\<lambda>x. x \<noteq> c) (xs @ ys) = dropWhile (\<lambda>x. x \<noteq> c) ys"
  by (induction xs) auto

lemma sanitizeErrorCode_qualified:
  assumes "CHR ''#'' \<notin> set ns" and "CHR '','' \<notin> set ns" and "CHR '':'' \<notin> set ns"
  shows "sanitizeErrorCode (ns @ ''#'' @ exception_name k) = exception_name k"
  using assms
  by (cases k) (simp_all add: sanitizeErrorCode_def Let_def takeWhile_all dropWhile_all)

lemma core_loader_normalizes:
  assumes "loadRestJsonErrorCode lib = core_loadRestJsonErrorCode"
      and "wire_error_code output parsed = Some w"
  shows "loadRestJsonErrorCode lib output parsed = Some (sanitizeErrorCode w)"
  using assms by (simp add: core_loadRestJsonErrorCode_def)

lemma de_CommandError_rejected:
  assumes "parseErrorBody lib (body output) = None"
  shows "(de_CommandError lib output :: ('h, 'b) thrown + 'a) = Inl BodyRejected"
  using assms by (simp add: de_CommandError_def)

text \<open>
  Claim C1, as amended. For every response whose status code is at least 300, both
  command deserializers hand the response to the error dispatcher and fail. When the
  error body parses, the dispatcher normalizes the extracted wire error code (with the
  library's loader the code it matches is \<open>sanitizeErrorCode\<close> of the wire code, so a
  code qualified by any namespace is matched as its bare name) and matches it, letter
  for letter, against the bare and the namespace-qualified name of each known exception.
  On a match the call fails with an exception of that class, decorated with the parsed
  body; the options the exception is constructed from carry the response's metadata as
  \<open>$metadata\<close> provided the deserialized body has no member of that name. On no match
  the call fails with the default error built from the response, the parsed body and the
  normalized code. When the error body does not parse, the call fails with the parser's
  rejection.
\<close>

theorem error_dispatch:
  assumes "statusCode output = Some status" and "300 \<le> status"
  shows
  "de_SendMessageCommand deserialize lib output = de_CommandError lib output \<and>
   de_GenerateCodeFromCommandsCommand deserialize' lib output = de_CommandError lib output \<and>
   isl (de_SendMessageCommand deserialize lib output) \<and>
   isl (de_GenerateCodeFromCommandsCommand deserialize' lib output) \<and>
   (parseErrorBody lib (body output) = None \<longrightarrow>
      de_SendMessageCommand deserialize lib output = Inl BodyRejected) \<and>
   (parseErrorBody lib (body output) = Some parsed \<longrightarrow>
      (loadRestJsonErrorCode lib = core_loadRestJsonErrorCode \<longrightarrow>
       wire_error_code output parsed = Some w \<longrightarrow>
         loadRestJsonErrorCode lib output parsed = Some (sanitizeErrorCode w)) \<and>
      (loadRestJsonErrorCode lib = core_loadRestJsonErrorCode \<longrightarrow>
       CHR ''#'' \<notin> set ns \<and> CHR '','' \<notin> set ns \<and> CHR '':'' \<notin> set ns \<longrightarrow>
       wire_error_code output parsed = Some (exception_name k) \<or>
       wire_error_code output parsed = Some (ns @ ''#'' @ exception_name k) \<longrightarrow>
         (\<exists>e. de_SendMessageCommand deserialize lib output = Inl (Thrown e) \<and>
              ex_kind e = k \<and> ex_additions e = parsed)) \<and>
      (loadRestJsonErrorCode lib output parsed = Some (exception_name k) \<or>
       loadRestJsonErrorCode lib output parsed = Some (qualified_name k) \<longrightarrow>
         (\<exists>e. de_SendMessageCommand deserialize lib output = Inl (Thrown e) \<and>
              ex_kind e = k \<and> ex_additions e = parsed \<and>
              (''$metadata'' \<notin> fst ` set (own_entries (uscore_json lib parsed)) \<longrightarrow>
                 options_metadata e = Some (Metadata (deserializeMetadata output))))) \<and>
      ((\<forall>k'. loadRestJsonErrorCode lib output parsed \<noteq> Some (exception_name k') \<and>
             loadRestJsonErrorCode lib output parsed \<noteq> Some (qualified_name k')) \<longrightarrow>
         de_SendMessageCommand deserialize lib output =
           Inl (DefaultError output parsed (loadRestJsonErrorCode lib output parsed))))"
proof -
  have routed: "de_SendMessageCommand deserialize lib output = de_CommandError lib output"
    using assms by (simp add: de_SendMessageCommand_def status_at_least_300_def)
  have routed':
    "de_GenerateCodeFromCommandsCommand deserialize' lib output = de_CommandError lib output"
    using assms by (simp add: de_GenerateCodeFromCommandsCommand_def status_at_least_300_def)
  have rejected: "de_SendMessageCommand deserialize lib output = Inl BodyRejected"
    if "parseErrorBody lib (body output) = None"
    using de_CommandError_rejected [OF that] routed by simp
  have matched: "\<exists>e. de_SendMessageCommand deserialize lib output = Inl (Thrown e) \<and>
                ex_kind e = k \<and> ex_additions e = parsed \<and>
                (''$metadata'' \<notin> fst ` set (own_entries (uscore_json lib parsed)) \<longrightarrow>
                   options_metadata e = Some (Metadata (deserializeMetadata output)))"
    if "parseErrorBody lib (body output) = Some parsed"
      and "loadRestJsonErrorCode lib output parsed = Some (exception_name k) \<or>
           loadRestJsonErrorCode lib output parsed = Some (qualified_name k)"
  proof (intro exI conjI impI)
    show "de_SendMessageCommand deserialize lib output =
            Inl (Thrown (ServiceException k
              (exception_options (deserializeMetadata (with_parsed_body output parsed))
                 (uscore_json lib parsed)) parsed))"
      using de_CommandError_match [OF that] routed by simp
  qed (simp_all add: options_metadata_def exception_options_metadata with_parsed_body_metadata)
  have normalized: "loadRestJsonErrorCode lib output parsed = Some (sanitizeErrorCode w)"
    if "loadRestJsonErrorCode lib = core_loadRestJsonErrorCode"
      and "wire_error_code output parsed = Some w"
    using core_loader_normalizes [OF that] .
  have wire_matched: "\<exists>e. de_SendMessageCommand deserialize lib output = Inl (Thrown e) \<and>
                ex_kind e = k \<and> ex_additions e = parsed"
    if parsed: "parseErrorBody lib (body output) = Some parsed"
      and core: "loadRestJsonErrorCode lib = core_loadRestJsonErrorCode"
      and ns: "CHR ''#'' \<notin> set ns \<and> CHR '','' \<notin> set ns \<and> CHR '':'' \<notin> set ns"
      and wire: "wire_error_code output parsed = Some (exception_name k) \<or>
                 wire_error_code output parsed = Some (ns @ ''#'' @ exception_name k)"
  proof -
    have "loadRestJsonErrorCode lib output parsed = Some (exception_name k)"
    proof (rule disjE [OF wire])
      assume "wire_error_code output parsed = Some (exception_name k)"
      from core_loader_normalizes [OF core this] show ?thesis
        by (simp only: sanitizeErrorCode_bare)
    next
      assume "wire_error_code output parsed = Some (ns @ ''#'' @ exception_name k)"
      moreover have "sanitizeErrorCode (ns @ ''#'' @ exception_name k) = exception_name k"
        using ns by (intro sanitizeErrorCode_qualified) simp_all
      ultimately show ?thesis
        using core_loader_normalizes [OF core] by simp
    qed
    then show ?thesis
      using matched [OF parsed] by blast
  qed
  have unmatched: "de_SendMessageCommand deserialize lib output =
           Inl (DefaultError output parsed (loadRestJsonErrorCode lib output parsed))"
    if "parseErrorBody lib (body output) = Some parsed"
      and "\<forall>k'. loadRestJsonErrorCode lib output parsed \<noteq> Some (exception_name k') \<and>
            loadRestJsonErrorCode lib output parsed \<noteq> Some (qualified_name k')"
    using de_CommandError_default [OF that] routed by simp
  have failed: "isl (de_SendMessageCommand deserialize lib output)"
    "isl (de_GenerateCodeFromCommandsCommand deserialize' lib output)"
    using routed routed' by (simp_all add: de_CommandError_fails)
  show ?thesis
    using routed routed' failed rejected matched normalized wire_matched unmatched by blast
qed

theorem error_dispatch_witness:
  "(\<exists>e. de_SendMessageCommand (\<lambda>_ _. ()) (sample_lib Some)
          (error_response 500 (error_body ''InternalServerException'')) = Inl (Thrown e) \<and>
       ex_kind e = InternalServerException \<and>
       ex_additions e = error_body ''InternalServerException'' \<and>
       options_metadata e =
         Some (Metadata \<lparr> httpStatusCode = Some 500, requestId = Some ''abc-123'',
                          extendedRequestId = None, cfId = None \<rparr>)) \<and>
   (\<exists>e. de_SendMessageCommand (\<lambda>_ _. ()) (sample_lib Some)
          (error_response 400 (error_body ''com.example.service#ValidationException''))
          = Inl (Thrown e) \<and>
       ex_kind e = ValidationException) \<and>
   de_SendMessageCommand (\<lambda>_ _. ()) (sample_lib Some)
      (error_response 429 (error_body ''throttlingexception'')) =
     Inl (DefaultError (error_response 429 (error_body ''throttlingexception''))
            (error_body ''throttlingexception'') (Some ''throttlingexception''))"
proof -
  let ?parsed = "error_body ''InternalServerException''"
  let ?output = "error_response 500 ?parsed"
  let ?parsed' = "error_body ''throttlingexception''"
  let ?output' = "error_response 429 ?parsed'"
  let ?parsed'' = "error_body ''com.example.service#ValidationException''"
  let ?output'' = "error_response 400 ?parsed''"
  let ?lib = "sample_lib Some :: (string, json, json) library"
  have status: "statusCode ?output = Some 500" and big: "(300 :: int) \<le> 500"
    and status': "statusCode ?output' = Some 429" and big': "(300 :: int) \<le> 429"
    and status'': "statusCode ?output'' = Some 400" and big'': "(300 :: int) \<le> 400"
    by (simp_all add: error_response_def)
  have parsed: "parseErrorBody ?lib (body ?output) = Some ?parsed"
    and parsed': "parseErrorBody ?lib (body ?output') = Some ?parsed'"
    and parsed'': "parseErrorBody ?lib (body ?output'') = Some ?parsed''"
    by (simp_all add: sample_lib_def error_response_def)
  have core: "loadRestJsonErrorCode ?lib = core_loadRestJsonErrorCode"
    by (simp add: sample_lib_def)
  have code: "loadRestJsonErrorCode ?lib ?output ?parsed =
                Some (exception_name InternalServerException)"
    and code': "loadRestJsonErrorCode ?lib ?output' ?parsed' = Some ''throttlingexception''"
    by (simp_all add: sample_defs)
  have wire: "wire_error_code ?output'' ?parsed'' =
                Some (''com.example.service'' @ ''#'' @ exception_name ValidationException)"
    by (simp add: sample_defs)
  have ns: "CHR ''#'' \<notin> set ''com.example.service'' \<and> CHR '','' \<notin> set ''com.example.service'' \<and>
            CHR '':'' \<notin> set ''com.example.service''"
    by simp
  have fresh: "''$metadata'' \<notin> fst ` set (own_entries (uscore_json ?lib ?parsed))"
    by (simp add: sample_lib_def error_body_def)
  have md: "deserializeMetadata ?output =
              \<lparr> httpStatusCode = Some 500, requestId = Some ''abc-123'',
                extendedRequestId = None, cfId = None \<rparr>"
    by (simp add: deserializeMetadata_def error_response_def nullish_def)
  have miss: "\<forall>k'. loadRestJsonErrorCode ?lib ?output' ?parsed' \<noteq> Some (exception_name k') \<and>
                 loadRestJsonErrorCode ?lib ?output' ?parsed' \<noteq> Some (qualified_name k')"
  proof
    fix k'
    show "loadRestJsonErrorCode ?lib ?output' ?parsed' \<noteq> Some (exception_name k') \<and>
          loadRestJsonErrorCode ?lib ?output' ?parsed' \<noteq> Some (qualified_name k')"
      unfolding code' by (cases k') (simp_all add: qualified_name_def)
  qed
  from error_dispatch [OF status big, where deserialize = "\<lambda>_ _. ()" and lib = ?lib
      and parsed = ?parsed and k = InternalServerException] parsed code fresh
  have "\<exists>e. de_SendMessageCommand (\<lambda>_ _. ()) ?lib ?output = Inl (Thrown e) \<and>
       ex_kind e = InternalServerException \<and> ex_additions e = ?parsed \<and>
       options_metadata e = Some (Metadata (deserializeMetadata ?output))"
    by blast
  moreover
  from error_dispatch [OF status'' big'', where deserialize = "\<lambda>_ _. ()" and lib = ?lib
      and parsed = ?parsed'' and k = ValidationException and ns = "''com.example.service''"]
    parsed'' core wire ns
  have "\<exists>e. de_SendMessageCommand (\<lambda>_ _. ()) ?lib ?output'' = Inl (Thrown e) \<and>
       ex_kind e = ValidationException"
    by blast
  moreover
  from error_dispatch [OF status' big', where deserialize = "\<lambda>_ _. ()" and lib = ?lib
      and parsed = ?parsed' and k = InternalServerException] parsed' miss
  have "de_SendMessageCommand (\<lambda>_ _. ()) ?lib ?output' =
          Inl (DefaultError ?output' ?parsed' (loadRestJsonErrorCode ?lib ?output' ?parsed'))"
    by blast
  ultimately show ?thesis
    unfolding md code' by blast
qed

text \<open>
  The claim as stated fails where the error body has a member \<open>$metadata\<close>: the spread
  \<^verbatim>\<open>...deserialized\<close> comes after \<^verbatim>\<open>$metadata\<close> in the options and replaces it. It
  fails where the body is not JSON: the call fails with the parser's rejection, which is
  neither a known exception nor the default error. And the code the default error is
  built from is the normalized code, not the raw one.
\<close>

theorem error_dispatch_counterexample:
  "(\<exists>e. de_SendMessageCommand (\<lambda>_ _. ()) (sample_lib Some)
          (error_response 400
             (JObj [(''__type'', JStr ''ThrottlingException''), (''$metadata'', JObj [])]))
          = Inl (Thrown e) \<and>
       ex_kind e = ThrottlingException \<and>
       options_metadata e = Some (Member (JObj [])) \<and>
       options_metadata e \<noteq>
         Some (Metadata (deserializeMetadata
           (error_response 400
             (JObj [(''__type'', JStr ''ThrottlingException''), (''$metadata'', JObj [])]))))) \<and>
   de_SendMessageCommand (\<lambda>_ _. ()) (sample_lib json_text)
      (error_response 502 (JStr ''<html>Bad Gateway</html>'')) = Inl BodyRejected \<and>
   de_SendMessageCommand (\<lambda>_ _. ()) (sample_lib Some)
      (error_response 500 (error_body ''ns#UnheardOfException'')) =
     Inl (DefaultError (error_response 500 (error_body ''ns#UnheardOfException''))
            (error_body ''ns#UnheardOfException'') (Some ''UnheardOfException''))"
  by (simp add: de_SendMessageCommand_def status_at_least_300_def options_metadata_def
      sample_defs dispatch_defs)

text \<open>
  Claim C3, as amended. The dispatcher recognizes exactly eight named exception kinds:
  the call fails with the exception of kind \<open>k\<close> exactly when the error body parses and
  the normalized error code is the bare or the qualified name of \<open>k\<close>, and the kinds
  are the eight of \<open>exception_kinds\<close>. When the error body parses, every wire error
  code whose normalized form (\<open>sanitizeErrorCode\<close> of it, with the library's loader) is
  the name of no kind is mapped to the default error; when the body does not parse, the
  call fails with the parser's rejection.
\<close>

theorem dispatcher_kinds:
  "(thrown_kind (de_CommandError lib output :: (string, 'b) thrown + unit) = Some k \<longleftrightarrow>
      (\<exists>parsed. parseErrorBody lib (body output) = Some parsed \<and>
         (loadRestJsonErrorCode lib output parsed = Some (exception_name k) \<or>
          loadRestJsonErrorCode lib output parsed = Some (qualified_name k)))) \<and>
   (parseErrorBody lib (body output) = Some parsed \<longrightarrow>
    (\<forall>k'. loadRestJsonErrorCode lib output parsed \<noteq> Some (exception_name k') \<and>
          loadRestJsonErrorCode lib output parsed \<noteq> Some (qualified_name k')) \<longrightarrow>
      (de_CommandError lib output :: (string, 'b) thrown + unit) =
         Inl (DefaultError output parsed (loadRestJsonErrorCode lib output parsed))) \<and>
   (parseErrorBody lib (body output) = Some parsed \<longrightarrow>
    loadRestJsonErrorCode lib = core_loadRestJsonErrorCode \<longrightarrow>
    wire_error_code output parsed = Some w \<longrightarrow>
    (\<forall>k'. sanitizeErrorCode w \<noteq> exception_name k' \<and>
          sanitizeErrorCode w \<noteq> qualified_name k') \<longrightarrow>
      (de_CommandError lib output :: (string, 'b) thrown + unit) =
         Inl (DefaultError output parsed (Some (sanitizeErrorCode w)))) \<and>
   (parseErrorBody lib (body output) = None \<longrightarrow>
      (de_CommandError lib output :: (string, 'b) thrown + unit) = Inl BodyRejected) \<and>
   distinct exception_kinds \<and> length exception_kinds = 8 \<and> set exception_kinds = UNIV"
proof -
  let ?result = "de_CommandError lib output :: (string, 'b) thrown + unit"
  have hit: "thrown_kind ?result = Some k'"
    if "parseErrorBody lib (body output) = Some p"
      and "loadRestJsonErrorCode lib output p = Some (exception_name k') \<or>
           loadRestJsonErrorCode lib output p = Some (qualified_name k')" for k' p
    using de_CommandError_match [OF that, where ?'a = unit]
    by (simp add: thrown_kind_def)
  have miss: "?result = Inl (DefaultError output p (loadRestJsonErrorCode lib output p))"
    if "parseErrorBody lib (body output) = Some p"
      and "\<forall>k'. loadRestJsonErrorCode lib output p \<noteq> Some (exception_name k') \<and>
                loadRestJsonErrorCode lib output p \<noteq> Some (qualified_name k')" for p
    using de_CommandError_default [OF that, where ?'a = unit] .
  have rejected: "?result = Inl BodyRejected" if "parseErrorBody lib (body output) = None"
    using de_CommandError_rejected [OF that, where ?'a = unit] .
  have only: "\<exists>p. parseErrorBody lib (body output) = Some p \<and>
                 (loadRestJsonErrorCode lib output p = Some (exception_name k) \<or>
                  loadRestJsonErrorCode lib output p = Some (qualified_name k))"
    if kind: "thrown_kind ?result = Some k"
  proof (cases "parseErrorBody lib (body output)")
    case None
    from rejected [OF this] kind show ?thesis
      by (simp add: thrown_kind_def)
  next
    case (Some p)
    show ?thesis
    proof (cases "\<exists>k'. loadRestJsonErrorCode lib output p = Some (exception_name k') \<or>
                      loadRestJsonErrorCode lib output p = Some (qualified_name k')")
      case True
      then obtain k' where k': "loadRestJsonErrorCode lib output p = Some (exception_name k') \<or>
                                loadRestJsonErrorCode lib output p = Some (qualified_name k')"
        by blast
      from hit [OF Some k'] kind have "k' = k" by simp
      with k' Some show ?thesis by blast
    next
      case False
      then have "?result = Inl (DefaultError output p (loadRestJsonErrorCode lib output p))"
        using miss [OF Some] by blast
      with kind show ?thesis by (simp add: thrown_kind_def)
    qed
  qed
  have wire_miss: "?result = Inl (DefaultError output parsed (Some (sanitizeErrorCode w)))"
    if parsed: "parseErrorBody lib (body output) = Some parsed"
      and core: "loadRestJsonErrorCode lib = core_loadRestJsonErrorCode"
      and wire: "wire_error_code output parsed = Some w"
      and none: "\<forall>k'. sanitizeErrorCode w \<noteq> exception_name k' \<and>
                     sanitizeErrorCode w \<noteq> qualified_name k'"
  proof -
    have code: "loadRestJsonErrorCode lib output parsed = Some (sanitizeErrorCode w)"
      using core_loader_normalizes [OF core wire] .
    from miss [OF parsed] none show ?thesis
      unfolding code by simp
  qed
  have listed: "distinct exception_kinds \<and> length exception_kinds = 8"
    by (simp add: exception_kinds_def)
  have iff: "thrown_kind ?result = Some k \<longleftrightarrow>
      (\<exists>parsed. parseErrorBody lib (body output) = Some parsed \<and>
         (loadRestJsonErrorCode lib output parsed = Some (exception_name k) \<or>
          loadRestJsonErrorCode lib output parsed = Some (qualified_name k)))"
    using hit only by blast
  show ?thesis
    using iff miss [of parsed] wire_miss rejected listed exception_kinds_all by blast
qed

theorem dispatcher_kinds_witness:
  "thrown_kind (de_CommandError (sample_lib Some)
      (error_response 429 (error_body ''com.amazon.aws.codewhisperer#ThrottlingException''))
      :: (string, json) thrown + unit) = Some ThrottlingException \<and>
   (de_CommandError (sample_lib Some) (error_response 500 (error_body ''ns#UnheardOfException''))
      :: (string, json) thrown + unit) =
     Inl (DefaultError (error_response 500 (error_body ''ns#UnheardOfException''))
            (error_body ''ns#UnheardOfException'') (Some ''UnheardOfException'')) \<and>
   length exception_kinds = 8"
proof -
  let ?parsed = "error_body ''com.amazon.aws.codewhisperer#ThrottlingException''"
  let ?output = "error_response 429 ?parsed"
  let ?parsed' = "error_body ''ns#UnheardOfException''"
  let ?output' = "error_response 500 ?parsed'"
  let ?lib = "sample_lib Some :: (string, json, json) library"
  have parsed: "parseErrorBody ?lib (body ?output) = Some ?parsed"
    and parsed': "parseErrorBody ?lib (body ?output') = Some ?parsed'"
    by (simp_all add: sample_defs)
  have code: "loadRestJsonErrorCode ?lib ?output ?parsed = Some (exception_name ThrottlingException)"
    by (simp add: sample_defs)
  have core: "loadRestJsonErrorCode ?lib = core_loadRestJsonErrorCode"
    by (simp add: sample_lib_def)
  have wire: "wire_error_code ?output' ?parsed' = Some ''ns#UnheardOfException''"
    by (simp add: sample_defs)
  have clean: "sanitizeErrorCode ''ns#UnheardOfException'' = ''UnheardOfException''"
    by (simp add: sanitizeErrorCode_def)
  have none: "\<forall>k'. sanitizeErrorCode ''ns#UnheardOfException'' \<noteq> exception_name k' \<and>
                   sanitizeErrorCode ''ns#UnheardOfException'' \<noteq> qualified_name k'"
  proof
    fix k'
    show "sanitizeErrorCode ''ns#UnheardOfException'' \<noteq> exception_name k' \<and>
          sanitizeErrorCode ''ns#UnheardOfException'' \<noteq> qualified_name k'"
      unfolding clean by (cases k') (simp_all add: qualified_name_def)
  qed
  from dispatcher_kinds [where lib = ?lib and ?output = ?output and k = ThrottlingException]
    parsed code
  have first: "thrown_kind (de_CommandError ?lib ?output :: (string, json) thrown + unit) =
                 Some ThrottlingException \<and> length exception_kinds = 8"
    by blast
  from dispatcher_kinds [where lib = ?lib and ?output = ?output' and parsed = ?parsed'
      and w = "''ns#UnheardOfException''"] parsed' core wire none
  have "(de_CommandError ?lib ?output' :: (string, json) thrown + unit) =
          Inl (DefaultError ?output' ?parsed' (Some (sanitizeErrorCode ''ns#UnheardOfException'')))"
    by blast
  with first show ?thesis
    unfolding clean by blast
qed

text \<open>
  The claim as stated says seven kinds, and that every wire error code outside the set is
  mapped to the default error. The eight bare names make the dispatcher fail with eight
  different kinds of exception; the wire code \<open>com.example.service#ValidationException\<close>
  is none of the sixteen names of the \<^verbatim>\<open>switch\<close> and is dispatched to
  \<open>ValidationException\<close>; and where the body is not JSON no code is mapped to the default
  error: the call fails with the parser's rejection.
\<close>

theorem seven_kinds_counterexample:
  "card (set (List.map_filter
      (\<lambda>code. thrown_kind
         (de_CommandError (sample_lib Some) (error_response 400 (error_body code))
            :: (string, json) thrown + unit))
      [''AccessDeniedException'', ''ConflictException'', ''DryRunOperationException'',
        ''InternalServerException'', ''ResourceNotFoundException'',
        ''ServiceQuotaExceededException'', ''ThrottlingException'', ''ValidationException''])) = 8 \<and>
   card (set (List.map_filter
      (\<lambda>code. thrown_kind
         (de_CommandError (sample_lib Some) (error_response 400 (error_body code))
            :: (string, json) thrown + unit))
      [''AccessDeniedException'', ''ConflictException'', ''DryRunOperationException'',
        ''InternalServerException'', ''ResourceNotFoundException'',
        ''ServiceQuotaExceededException'', ''ThrottlingException'', ''ValidationException''])) \<noteq> 7 \<and>
   ''com.example.service#ValidationException'' \<notin>
      set (map exception_name exception_kinds @ map qualified_name exception_kinds) \<and>
   thrown_kind (de_CommandError (sample_lib Some)
      (error_response 400 (error_body ''com.example.service#ValidationException''))
      :: (string, json) thrown + unit) = Some ValidationException \<and>
   (de_CommandError (sample_lib json_text)
      (error_response 502 (JStr ''<html>Bad Gateway</html>''))
      :: (string, json) thrown + unit) = Inl BodyRejected"
  by (simp add: List.map_filter_def thrown_kind_def sample_defs dispatch_defs
      exception_kinds_def qualified_name_def)

subsection \<open>The event stream demultiplexers\<close>

lemma if_event_single:
  "if_event [(name', message)] key decoder wrap otherwise =
     (if name' = key then map_sum id wrap (decoder message) else otherwise)"
  by (simp add: if_event_def)

lemma error_event_decoded:
  assumes "parseBody lib (body message) = Some parsed"
  shows "de_ChatResponseStream_event lib output [(''error'', message)] =
           Inr (ChatResponseStream_error
             (de_InternalServerExceptionRes lib (with_parsed_body message parsed)))"
  using assms
  by (simp add: de_ChatResponseStream_event_def if_event_single
      de_InternalServerException_event_def)

lemma generate_error_events_decoded:
  assumes "parseBody lib (body message) = Some parsed"
  shows "de_GenerateCodeFromCommandsResponseStream_event lib output [(''Error'', message)] =
           Inr (GenerateCodeFromCommandsResponseStream_Error
             (de_InternalServerExceptionRes lib (with_parsed_body message parsed)))"
    and "de_GenerateCodeFromCommandsResponseStream_event lib output
           [(''QuotaLevelExceededError'', message)] =
           Inr (GenerateCodeFromCommandsResponseStream_QuotaLevelExceededError
             (de_ServiceQuotaExceededExceptionRes lib (with_parsed_body message parsed)))"
    and "de_GenerateCodeFromCommandsResponseStream_event lib output
           [(''ValidationError'', message)] =
           Inr (GenerateCodeFromCommandsResponseStream_ValidationError
             (de_ValidationExceptionRes lib (with_parsed_body message parsed)))"
  using assms
  by (simp_all add: de_GenerateCodeFromCommandsResponseStream_event_def if_event_single
      de_InternalServerException_event_def de_ServiceQuotaExceededException_event_def
      de_ValidationException_event_def)

text \<open>
  Claim C2, as amended. For every in-stream error event whose payload parses, the
  callback returns (it does not throw) the error alternative of the event variant,
  holding the exception whose class the event's name fixes: \<open>error\<close> and \<open>Error\<close> give an
  \<open>InternalServerException\<close>, \<open>QuotaLevelExceededError\<close> a
  \<open>ServiceQuotaExceededException\<close>, \<open>ValidationError\<close> a \<open>ValidationException\<close>. The
  error code of the payload is not consulted: the statement holds for every
  \<open>loadRestJsonErrorCode\<close>.
\<close>

theorem in_stream_error_kind_fixed:
  assumes "parseBody lib (body message) = Some parsed"
  shows
  "de_ChatResponseStream_event lib output [(''error'', message)] =
     Inr (ChatResponseStream_error (ServiceException InternalServerException
       (exception_options (deserializeMetadata message) (uscore_json lib parsed)) parsed)) \<and>
   de_GenerateCodeFromCommandsResponseStream_event lib output [(''Error'', message)] =
     Inr (GenerateCodeFromCommandsResponseStream_Error (ServiceException InternalServerException
       (exception_options (deserializeMetadata message) (uscore_json lib parsed)) parsed)) \<and>
   de_GenerateCodeFromCommandsResponseStream_event lib output
       [(''QuotaLevelExceededError'', message)] =
     Inr (GenerateCodeFromCommandsResponseStream_QuotaLevelExceededError
       (ServiceException ServiceQuotaExceededException
         (exception_options (deserializeMetadata message) (uscore_json lib parsed)) parsed)) \<and>
   de_GenerateCodeFromCommandsResponseStream_event lib output [(''ValidationError'', message)] =
     Inr (GenerateCodeFromCommandsResponseStream_ValidationError
       (ServiceException ValidationException
         (exception_options (deserializeMetadata message) (uscore_json lib parsed)) parsed))"
  using error_event_decoded [OF assms] generate_error_events_decoded [OF assms]
  by (simp add: exception_res_defs Let_def with_parsed_body_metadata)
     (simp add: with_parsed_body_def)

theorem in_stream_error_kind_fixed_witness:
  "de_ChatResponseStream_event (sample_lib Some) (JArr [])
      (frame ''error'' (error_body ''InternalServerException'')) =
     Inr (ChatResponseStream_error (ServiceException InternalServerException
       [(''$metadata'', Metadata \<lparr> httpStatusCode = None, requestId = None,
                                    extendedRequestId = None, cfId = None \<rparr>),
        (''__type'', Member (JStr ''InternalServerException'')),
        (''message'', Member (JStr ''boom''))]
       (error_body ''InternalServerException'')))"
proof -
  let ?parsed = "error_body ''InternalServerException''"
  let ?lib = "sample_lib Some :: (string, json, json) library"
  have parsed: "parseBody ?lib (body (sample_message ?parsed)) = Some ?parsed"
    by (simp add: sample_defs)
  from in_stream_error_kind_fixed [OF parsed, of "JArr []"]
  show ?thesis
    by (simp add: sample_defs dispatch_defs)
qed

text \<open>
  The claim as stated says the dispatcher's matching is applied to the payload. On a
  payload whose code is \<open>ThrottlingException\<close> the dispatcher fails with a
  \<open>ThrottlingException\<close> and the event decoder returns an \<open>InternalServerException\<close>; on a
  payload with an unknown code the dispatcher falls back to the default error and the
  event decoder again returns an \<open>InternalServerException\<close>.
\<close>

theorem in_stream_matching_counterexample:
  "thrown_kind (de_CommandError (sample_lib Some)
      (sample_message (error_body ''ThrottlingException'')) :: (string, json) thrown + unit)
     = Some ThrottlingException \<and>
   de_ChatResponseStream_event (sample_lib Some) (JArr [])
      (frame ''error'' (error_body ''ThrottlingException'')) =
     Inr (ChatResponseStream_error (ServiceException InternalServerException
       [(''$metadata'', Metadata \<lparr> httpStatusCode = None, requestId = None,
                                    extendedRequestId = None, cfId = None \<rparr>),
        (''__type'', Member (JStr ''ThrottlingException'')),
        (''message'', Member (JStr ''boom''))]
       (error_body ''ThrottlingException''))) \<and>
   (de_CommandError (sample_lib Some)
      (sample_message (error_body ''UnheardOfException'')) :: (string, json) thrown + unit)
     = Inl (DefaultError (sample_message (error_body ''UnheardOfException''))
              (error_body ''UnheardOfException'') (Some ''UnheardOfException'')) \<and>
   de_ChatResponseStream_event (sample_lib Some) (JArr [])
      (frame ''error'' (error_body ''UnheardOfException'')) =
     Inr (ChatResponseStream_error (ServiceException InternalServerException
       [(''$metadata'', Metadata \<lparr> httpStatusCode = None, requestId = None,
                                    extendedRequestId = None, cfId = None \<rparr>),
        (''__type'', Member (JStr ''UnheardOfException'')),
        (''message'', Member (JStr ''boom''))]
       (error_body ''UnheardOfException'')))"
  by (simp add: thrown_kind_def sample_defs dispatch_defs de_ChatResponseStream_event_def
      if_event_single de_InternalServerException_event_def)

text \<open>
  Claim C4, what the code does. For every frame whose name is none of the names the
  callback tests, the callback returns the \<open>$unknown\<close> alternative holding \<open>output\<close>, the
  response body, whatever the frame is: the frame itself is not in the result.
\<close>

theorem unknown_event_holds_output:
  "(name' \<notin> set [''messageMetadataEvent'', ''assistantResponseEvent'', ''dryRunSucceedEvent'',
         ''codeReferenceEvent'', ''supplementaryWebLinksEvent'',
         ''followupPromptEvent'', ''codeEvent'', ''intentsEvent'',
         ''interactionComponentsEvent'', ''toolUseEvent'', ''citationEvent'',
         ''invalidStateEvent'', ''error''] \<longrightarrow>
      de_ChatResponseStream_event lib output [(name', message)] =
        Inr (ChatResponseStream_unknown output)) \<and>
   (name' \<notin> set [''codeEvent'', ''Error'', ''QuotaLevelExceededError'', ''ValidationError''] \<longrightarrow>
      de_GenerateCodeFromCommandsResponseStream_event lib output [(name', message)] =
        Inr (GenerateCodeFromCommandsResponseStream_unknown output))"
  by (simp add: de_ChatResponseStream_event_def
      de_GenerateCodeFromCommandsResponseStream_event_def if_event_single)

theorem unknown_event_holds_output_witness:
  "de_ChatResponseStream_event (sample_lib Some) (JStr ''the response body'')
      (frame ''futureEvent'' (JObj [(''n'', JNum 1)])) =
     Inr (ChatResponseStream_unknown (JStr ''the response body'')) \<and>
   de_ChatResponseStream_event (sample_lib Some) (JStr ''the response body'')
      (frame ''laterEvent'' (JObj [(''n'', JNum 2)])) =
     Inr (ChatResponseStream_unknown (JStr ''the response body''))"
  using unknown_event_holds_output [of "''futureEvent''" "sample_lib Some"
      "JStr ''the response body''" "sample_message (JObj [(''n'', JNum 1)])"]
    unknown_event_holds_output [of "''laterEvent''" "sample_lib Some"
      "JStr ''the response body''" "sample_message (JObj [(''n'', JNum 2)])"]
  by (simp add: frame_def)






subsection \<open>The serializers\<close>

text \<open>
  Claim C10. For every unrecognized alternative, whatever its tag, the encoders
  \<open>se_ChatMessage\<close>, \<open>se_ImageSource\<close>, \<open>se_Tool\<close> and \<open>se_ToolResultContentBlock\<close>
  produce the object whose single key is the literal string \<open>name\<close>, mapped to the
  payload; unless the tag is itself \<open>name\<close>, that is not the object keyed by the tag.
\<close>

theorem fallback_key_is_name:
  "se_ChatMessage lib (ChatMessage_unknown tag v) ctx = JObj [(''name'', v)] \<and>
   se_ImageSource (ImageSource_unknown tag v) ctx = JObj [(''name'', v)] \<and>
   se_Tool (Tool_unknown tag v) ctx = JObj [(''name'', v)] \<and>
   se_ToolResultContentBlock (ToolResultContentBlock_unknown tag v) ctx =
     JObj [(''name'', v)] \<and>
   (tag \<noteq> ''name'' \<longrightarrow>
      se_ChatMessage lib (ChatMessage_unknown tag v) ctx \<noteq> JObj [(tag, v)] \<and>
      se_ImageSource (ImageSource_unknown tag v) ctx \<noteq> JObj [(tag, v)] \<and>
      se_Tool (Tool_unknown tag v) ctx \<noteq> JObj [(tag, v)] \<and>
      se_ToolResultContentBlock (ToolResultContentBlock_unknown tag v) ctx \<noteq>
        JObj [(tag, v)])"
  by (simp add: se_ChatMessage_def se_ImageSource_def se_Tool_def se_ToolResultContentBlock_def
      visit_defs)

theorem fallback_key_is_name_witness:
  "se_ImageSource (ImageSource_unknown ''url'' (JStr ''https://example.com/a.png''))
      sample_context = JObj [(''name'', JStr ''https://example.com/a.png'')] \<and>
   se_ImageSource (ImageSource_unknown ''url'' (JStr ''https://example.com/a.png''))
      sample_context \<noteq> JObj [(''url'', JStr ''https://example.com/a.png'')] \<and>
   se_ChatMessage (sample_lib Some) (ChatMessage_unknown ''toolMessage'' (JObj [])) sample_context
     = JObj [(''name'', JObj [])]"
  using fallback_key_is_name
      [where lib = "sample_lib Some" and tag = "''url''"
         and v = "JStr ''https://example.com/a.png''" and ctx = sample_context]
    fallback_key_is_name
      [where lib = "sample_lib Some" and tag = "''toolMessage''" and v = "JObj []"
         and ctx = sample_context]
  by simp

text \<open>
  Claim C9. The bytes alternative of an image source is written as the output of the
  context's base64 encoder, also where the image source is the \<open>source\<close> field of an
  image block; a document is encoded to itself, and the document fields (\<open>json\<close> of a
  tool result content block and of a tool input schema, \<open>input\<close> of a tool use) are
  written with the value they hold (a null field counts as absent and is not written).
\<close>

theorem bytes_base64_documents_verbatim:
  "se_ImageSource (ImageSource_bytes bs) ctx =
     JObj [(''bytes'', JStr (base64Encoder ctx bs))] \<and>
   se_ImageBlock \<lparr> ib_format = fmt, ib_source = Some (ImageSource_bytes bs) \<rparr> ctx =
     JObj (take_entry ''format'' fmt scalar_json @
           [(''source'', JObj [(''bytes'', JStr (base64Encoder ctx bs))])]) \<and>
   se_SensitiveDocument d ctx = d \<and>
   se_ToolResultContentBlock (ToolResultContentBlock_json d) ctx = JObj [(''json'', d)] \<and>
   (d \<noteq> JNull \<longrightarrow>
      se_ToolUse \<lparr> tu_input = Some d, tu_name = None, tu_toolUseId = None \<rparr> ctx
        = JObj [(''input'', d)] \<and>
      se_ToolInputSchema \<lparr> tis_json = Some d \<rparr> ctx = JObj [(''json'', d)])"
  by (cases d)
     (simp_all add: se_ImageSource_def se_ImageBlock_def se_SensitiveDocument_def
        se_ToolResultContentBlock_def se_ToolUse_def se_ToolInputSchema_def visit_defs
        take_object_def take_entry_def present_def)

theorem bytes_base64_documents_verbatim_witness:
  "se_ImageSource (ImageSource_bytes [72, 105]) sample_context = JObj [(''bytes'', JStr ''SGk='')] \<and>
   se_ToolUse \<lparr> tu_input = Some (JObj [(''path'', JStr ''/tmp''), (''depth'', JNum 2)]),
                tu_name = None, tu_toolUseId = None \<rparr> sample_context =
     JObj [(''input'', JObj [(''path'', JStr ''/tmp''), (''depth'', JNum 2)])]"
  using bytes_base64_documents_verbatim
      [where bs = "[72, 105]" and ctx = sample_context and fmt = None
         and d = "JObj [(''path'', JStr ''/tmp''), (''depth'', JNum 2)]"]
  by (simp add: sample_context_def base64_alphabet_def)

lemma se_ConversationState_unknown_tag:
  "se_ConversationState lib (cs\<lparr>cs_currentMessage := Some (ChatMessage_unknown tag v)\<rparr>) ctx =
   se_ConversationState lib (cs\<lparr>cs_currentMessage := Some (ChatMessage_unknown tag' v)\<rparr>) ctx"
  by (simp add: se_ConversationState_def se_ChatMessage_def visit_defs take_entry_def)

text \<open>
  Claim C6, what the code does. The field \<open>currentMessage\<close> is covered by the rules of
  \<open>se_ConversationState\<close>, and where it holds an unrecognized alternative its tag is not
  in the encoding: two records that differ in that tag alone are encoded alike, so no
  decoder returns every record from its encoding.
\<close>

theorem unknown_message_tag_not_encoded:
  "se_ConversationState lib (cs\<lparr>cs_currentMessage := Some (ChatMessage_unknown tag v)\<rparr>) ctx =
   se_ConversationState lib (cs\<lparr>cs_currentMessage := Some (ChatMessage_unknown tag' v)\<rparr>) ctx \<and>
   map_of (own_entries (se_ConversationState lib
       (cs\<lparr>cs_currentMessage := Some (ChatMessage_unknown tag v)\<rparr>) ctx)) ''currentMessage'' =
     Some (JObj [(''name'', v)]) \<and>
   \<not> (\<exists>decode. \<forall>x. decode (se_ConversationState lib x ctx) = x)"
proof (intro conjI)
  show "se_ConversationState lib (cs\<lparr>cs_currentMessage := Some (ChatMessage_unknown tag v)\<rparr>) ctx =
    se_ConversationState lib (cs\<lparr>cs_currentMessage := Some (ChatMessage_unknown tag' v)\<rparr>) ctx"
    by (rule se_ConversationState_unknown_tag)
  show "map_of (own_entries (se_ConversationState lib
       (cs\<lparr>cs_currentMessage := Some (ChatMessage_unknown tag v)\<rparr>) ctx)) ''currentMessage'' =
     Some (JObj [(''name'', v)])"
    by (simp add: se_ConversationState_def se_ChatMessage_def visit_defs take_object_def
        take_entry_def split: option.splits)
  show "\<not> (\<exists>decode. \<forall>x. decode (se_ConversationState lib x ctx) = x)"
  proof
    assume "\<exists>decode. \<forall>x. decode (se_ConversationState lib x ctx) = x"
    then obtain decode where inv: "\<And>x. decode (se_ConversationState lib x ctx) = x"
      by blast
    let ?a = "cs\<lparr>cs_currentMessage := Some (ChatMessage_unknown ''a'' JNull)\<rparr>"
    let ?b = "cs\<lparr>cs_currentMessage := Some (ChatMessage_unknown ''b'' JNull)\<rparr>"
    have "?a = decode (se_ConversationState lib ?a ctx)"
      by (simp add: inv)
    also have "\<dots> = decode (se_ConversationState lib ?b ctx)"
      by (simp add: se_ConversationState_unknown_tag
          [where lib = lib and cs = cs and tag = "''a''" and v = JNull and ctx = ctx
             and tag' = "''b''"])
    also have "\<dots> = ?b"
      by (simp add: inv)
    finally have "cs_currentMessage ?a = cs_currentMessage ?b"
      by simp
    then show False by simp
  qed
qed

theorem unknown_message_tag_not_encoded_witness:
  "se_ConversationState (sample_lib Some)
     \<lparr> cs_chatTriggerType = Some (SString ''MANUAL''), cs_conversationId = None,
       cs_currentMessage = Some (ChatMessage_unknown ''futureMessage'' (JObj [(''content'', JStr ''hi'')])),
       cs_customizationArn = None, cs_history = None \<rparr> sample_context =
   JObj [(''chatTriggerType'', JStr ''MANUAL''),
         (''currentMessage'', JObj [(''name'', JObj [(''content'', JStr ''hi'')])])] \<and>
   se_ConversationState (sample_lib Some)
     \<lparr> cs_chatTriggerType = Some (SString ''MANUAL''), cs_conversationId = None,
       cs_currentMessage = Some (ChatMessage_unknown ''otherMessage'' (JObj [(''content'', JStr ''hi'')])),
       cs_customizationArn = None, cs_history = None \<rparr> sample_context =
   JObj [(''chatTriggerType'', JStr ''MANUAL''),
         (''currentMessage'', JObj [(''name'', JObj [(''content'', JStr ''hi'')])])]"
proof -
  let ?cs = "\<lparr> cs_chatTriggerType = Some (SString ''MANUAL''), cs_conversationId = None,
       cs_currentMessage = None, cs_customizationArn = None, cs_history = None \<rparr>"
  have "se_ConversationState (sample_lib Some)
          (?cs\<lparr>cs_currentMessage := Some (ChatMessage_unknown ''futureMessage'' (JObj [(''content'', JStr ''hi'')]))\<rparr>)
          sample_context =
        JObj [(''chatTriggerType'', JStr ''MANUAL''),
              (''currentMessage'', JObj [(''name'', JObj [(''content'', JStr ''hi'')])])]"
    by (simp add: se_ConversationState_def se_ChatMessage_def visit_defs take_object_def
        take_entry_def)
  with unknown_message_tag_not_encoded
    [where lib = "sample_lib Some" and cs = ?cs and tag = "''futureMessage''"
       and v = "JObj [(''content'', JStr ''hi'')]" and ctx = sample_context
       and tag' = "''otherMessage''"]
  show ?thesis by simp
qed

end
